theory Spec2Isabelle
  imports Complex_Main "HOL-Library.AList"
begin

text \<open>
  The agent-detection library classifies a browser session as driven by a human or by an
  automated agent: events are captured, throttled and stored; extractors turn them into
  named features; the detector merges, preprocesses and scores the feature vector. The
  definitions below follow the TypeScript sources, one section per source file, with
  object state passed explicitly and thrown errors returned as values; the theorems
  follow the definitions.
\<close>

section \<open>JavaScript values\<close>

text \<open>
  A JavaScript number is a double: a finite value, one of the two infinities, or \<open>NaN\<close>.
  Finite values are given as reals. The sign of a zero is not kept.
\<close>

datatype number = Fin real | PosInf | NegInf | NaN

text \<open>
  A value: a primitive, or \<open>JObject\<close>, an object or function. The only objects that
  occur are the members of \<open>Object.prototype\<close>, which every plain object inherits; the
  extractors produce numbers, booleans and strings.
\<close>

datatype js_value =
    JNumber number
  | JBool bool
  | JStr string
  | JNull
  | JUndefined
  | JObject

text \<open>
  What the language itself supplies is a parameter of the model: \<open>round_double\<close> takes the
  exact result of an arithmetic operation on finite doubles to the double the operation
  returns (the nearest double, or an infinity on overflow); \<open>Math_exp\<close> is \<open>Math.exp\<close> on a
  finite number, an approximation the language leaves to the implementation;
  \<open>StringToNumber\<close> is the conversion applied by \<open>*\<close> to a string operand, \<open>parseFloat_str\<close>
  is \<open>parseFloat\<close> on a string, \<open>NumberToString\<close> is \<open>String\<close> on a finite number.
\<close>

record js_builtins =
  round_double :: "real \<Rightarrow> number"
  Math_exp :: "real \<Rightarrow> number"
  StringToNumber :: "string \<Rightarrow> number"
  parseFloat_str :: "string \<Rightarrow> number"
  NumberToString :: "real \<Rightarrow> string"

text \<open>
  The conversion of an operand of \<open>*\<close> to a number. A member of \<open>Object.prototype\<close> is a
  function, or the prototype object itself under \<open>__proto__\<close>; both convert to \<open>NaN\<close>.
\<close>

fun ToNumber :: "js_builtins \<Rightarrow> js_value \<Rightarrow> number" where
  "ToNumber js (JNumber n) = n"
| "ToNumber js (JBool b) = Fin (if b then 1 else 0)"
| "ToNumber js (JStr s) = StringToNumber js s"
| "ToNumber js JNull = Fin 0"
| "ToNumber js JUndefined = NaN"
| "ToNumber js JObject = NaN"

subsection \<open>Arithmetic on doubles\<close>

fun num_neg :: "number \<Rightarrow> number" where
  "num_neg (Fin a) = Fin (- a)"
| "num_neg PosInf = NegInf"
| "num_neg NegInf = PosInf"
| "num_neg NaN = NaN"

fun num_plus :: "js_builtins \<Rightarrow> number \<Rightarrow> number \<Rightarrow> number" where
  "num_plus js (Fin a) (Fin b) = round_double js (a + b)"
| "num_plus js NaN y = NaN"
| "num_plus js x NaN = NaN"
| "num_plus js PosInf NegInf = NaN"
| "num_plus js NegInf PosInf = NaN"
| "num_plus js PosInf y = PosInf"
| "num_plus js NegInf y = NegInf"
| "num_plus js x PosInf = PosInf"
| "num_plus js x NegInf = NegInf"

text \<open>An infinity of the given sign times a number: \<open>NaN\<close> when the number is 0.\<close>

fun inf_times :: "bool \<Rightarrow> number \<Rightarrow> number" where
  "inf_times positive (Fin b) =
     (if b = 0 then NaN else if (0 < b) = positive then PosInf else NegInf)"
| "inf_times positive PosInf = (if positive then PosInf else NegInf)"
| "inf_times positive NegInf = (if positive then NegInf else PosInf)"
| "inf_times positive NaN = NaN"

fun num_times :: "js_builtins \<Rightarrow> number \<Rightarrow> number \<Rightarrow> number" where
  "num_times js (Fin a) (Fin b) = round_double js (a * b)"
| "num_times js NaN y = NaN"
| "num_times js PosInf y = inf_times True y"
| "num_times js NegInf y = inf_times False y"
| "num_times js (Fin a) PosInf = inf_times True (Fin a)"
| "num_times js (Fin a) NegInf = inf_times False (Fin a)"
| "num_times js (Fin a) NaN = NaN"

text \<open>The quotient; a zero divisor counts as \<open>+0\<close>.\<close>

fun num_div :: "js_builtins \<Rightarrow> number \<Rightarrow> number \<Rightarrow> number" where
  "num_div js (Fin a) (Fin b) =
     (if b = 0 then (if a = 0 then NaN else if 0 < a then PosInf else NegInf)
      else round_double js (a / b))"
| "num_div js (Fin a) PosInf = Fin 0"
| "num_div js (Fin a) NegInf = Fin 0"
| "num_div js PosInf (Fin b) = (if 0 \<le> b then PosInf else NegInf)"
| "num_div js NegInf (Fin b) = (if 0 \<le> b then NegInf else PosInf)"
| "num_div js x y = NaN"

fun num_exp :: "js_builtins \<Rightarrow> number \<Rightarrow> number" where
  "num_exp js (Fin a) = Math_exp js a"
| "num_exp js PosInf = PosInf"
| "num_exp js NegInf = Fin 0"
| "num_exp js NaN = NaN"

text \<open>\<open>a >= b\<close> on numbers: every comparison with \<open>NaN\<close> is false.\<close>

fun num_ge :: "number \<Rightarrow> real \<Rightarrow> bool" where
  "num_ge (Fin a) b = (b \<le> a)"
| "num_ge PosInf b = True"
| "num_ge NegInf b = False"
| "num_ge NaN b = False"



subsection \<open>Objects\<close>

text \<open>
  A plain object with string keys is an association list of its own properties in
  insertion order; writing a key that exists replaces its value in place, a new key goes
  to the end. An assignment to \<open>__proto__\<close> does not make an own property; with the
  primitive values assigned here it does nothing.
\<close>

type_synonym features = "(string \<times> js_value) list"

definition obj_set :: "string \<Rightarrow> js_value \<Rightarrow> features \<Rightarrow> features" where
  "obj_set k v obj = (if k = ''__proto__'' then obj else AList.update k v obj)"

definition obj_assign :: "features \<Rightarrow> features \<Rightarrow> features" where
  "obj_assign target src = fold (\<lambda>(k, v). AList.update k v) src target"

text \<open>The names every plain object inherits from \<open>Object.prototype\<close>.\<close>

definition Object_prototype_names :: "string list" where
  "Object_prototype_names =
     [''constructor'', ''__defineGetter__'', ''__defineSetter__'', ''hasOwnProperty'',
      ''__lookupGetter__'', ''__lookupSetter__'', ''isPrototypeOf'', ''propertyIsEnumerable'',
      ''toString'', ''valueOf'', ''__proto__'', ''toLocaleString'']"

text \<open>
  \<open>obj[name]\<close> on a plain object: the own property; failing that the inherited member;
  \<open>undefined\<close> when there is neither.
\<close>

definition obj_get :: "features \<Rightarrow> string \<Rightarrow> js_value" where
  "obj_get obj name =
     (case map_of obj name of
        Some v \<Rightarrow> v
      | None \<Rightarrow> if name \<in> set Object_prototype_names then JObject else JUndefined)"

section \<open>utils/math-utils.ts\<close>

definition sigmoid :: "js_builtins \<Rightarrow> number \<Rightarrow> number" where
  "sigmoid js logit = num_div js (Fin 1) (num_plus js (Fin 1) (num_exp js (num_neg logit)))"

definition standardize :: "js_builtins \<Rightarrow> number \<Rightarrow> real \<Rightarrow> real \<Rightarrow> number" where
  "standardize js v mean std =
     (if std = 0 then Fin 0
      else num_div js (num_plus js v (Fin (- mean))) (Fin std))"

text \<open>\<open>toSnakeCase\<close>, on ASCII strings: the four replacements in turn.\<close>

definition is_upper :: "char \<Rightarrow> bool" where
  "is_upper c = (c \<in> set ''ABCDEFGHIJKLMNOPQRSTUVWXYZ'')"

definition to_lower :: "char \<Rightarrow> char" where
  "to_lower c =
     (case map_of (zip ''ABCDEFGHIJKLMNOPQRSTUVWXYZ'' ''abcdefghijklmnopqrstuvwxyz'') c of
        None \<Rightarrow> c
      | Some l \<Rightarrow> l)"

text \<open>Space, tab, line feed, vertical tab, form feed, carriage return.\<close>

definition is_space :: "char \<Rightarrow> bool" where
  "is_space c = (c \<in> set [CHR 0x20, CHR 0x09, CHR 0x0A, CHR 0x0B, CHR 0x0C, CHR 0x0D])"

definition underscore_uppers :: "string \<Rightarrow> string" where
  "underscore_uppers s = concat (map (\<lambda>c. if is_upper c then [CHR ''_'', c] else [c]) s)"

definition drop_leading_underscore :: "string \<Rightarrow> string" where
  "drop_leading_underscore s =
     (case s of [] \<Rightarrow> [] | c # cs \<Rightarrow> if c = CHR ''_'' then cs else c # cs)"

fun collapse_spaces :: "bool \<Rightarrow> string \<Rightarrow> string" where
  "collapse_spaces in_run [] = []"
| "collapse_spaces in_run (c # cs) =
     (if is_space c
      then (if in_run then collapse_spaces True cs else CHR ''_'' # collapse_spaces True cs)
      else c # collapse_spaces False cs)"

definition toSnakeCase :: "string \<Rightarrow> string" where
  "toSnakeCase str =
     collapse_spaces False (map to_lower (drop_leading_underscore (underscore_uppers str)))"

definition oneHotEncode :: "string \<Rightarrow> string list \<Rightarrow> features" where
  "oneHotEncode v categories =
     (if v \<notin> set categories
      then fold (\<lambda>cat enc. obj_set cat (JNumber (Fin 0)) enc) categories []
      else fold (\<lambda>cat enc. obj_set cat (JNumber (Fin (if cat = v then 1 else 0))) enc)
             categories [])"

section \<open>types/detection-types.ts\<close>

record detection_result =
  isAgent :: bool
  score :: number
  result_features :: features

text \<open>
  A parameter table. Its numbers are finite, as those written out in
  \<open>model-parameters.ts\<close> are; its objects are listed as \<open>Object.entries\<close> gives them.
\<close>

record preprocessing =
  numeric_features :: "(string \<times> real \<times> real) list"
  categorical_features :: "(string \<times> string list) list"
  boolean_features :: "string list"

record model_parameters =
  weights :: "(string \<times> real) list"
  bias :: real
  feature_order :: "string list"
  preprocessing :: "preprocessing option"

datatype error = Error string

section \<open>agent-detector.ts: scoring\<close>

text \<open>
  One turn of the loop over \<open>Object.entries(weights)\<close> in \<open>scoreFeatures\<close>: a feature that
  reads as \<open>undefined\<close> is skipped, any other value is multiplied by its weight and added.
\<close>

definition score_step :: "js_builtins \<Rightarrow> features \<Rightarrow> string \<times> real \<Rightarrow> number \<Rightarrow> number" where
  "score_step js fs e linearSum =
     (let featureValue = obj_get fs (fst e) in
      if featureValue = JUndefined then linearSum
      else num_plus js linearSum (num_times js (ToNumber js featureValue) (Fin (snd e))))"

definition scoreFeatures ::
  "js_builtins \<Rightarrow> model_parameters option \<Rightarrow> features \<Rightarrow> error + detection_result" where
  "scoreFeatures js modelParameters fs =
     (case modelParameters of
        None \<Rightarrow> Inl (Error ''Model parameters not loaded.'')
      | Some mp \<Rightarrow>
          (let linearSum = fold (score_step js fs) (weights mp) (Fin (bias mp));
               probabilityAgent = sigmoid js linearSum
           in Inr \<lparr>isAgent = num_ge probabilityAgent (1 / 2),
                   score = probabilityAgent,
                   result_features = fs\<rparr>))"

subsection \<open>The scoring rule in words\<close>

text \<open>
  A weight name counts as present when the vector defines a feature of that name, or
  when the name is one that every object inherits.
\<close>

definition is_present :: "features \<Rightarrow> string \<Rightarrow> bool" where
  "is_present fs name =
     (case map_of fs name of
        Some v \<Rightarrow> v \<noteq> JUndefined
      | None \<Rightarrow> name \<in> set Object_prototype_names)"

definition present_weights :: "features \<Rightarrow> (string \<times> real) list \<Rightarrow> (string \<times> real) list" where
  "present_weights fs ws = filter (\<lambda>e. is_present fs (fst e)) ws"









text \<open>
  Builtins for the examples: arithmetic without rounding or overflow, and, no string used
  in the examples being a numeric literal, every string converted to \<open>NaN\<close>.
\<close>

definition js_plain :: js_builtins where
  "js_plain =
     \<lparr>round_double = Fin, Math_exp = (\<lambda>a. Fin (exp a)), StringToNumber = (\<lambda>s. NaN), parseFloat_str = (\<lambda>s. NaN),
      NumberToString = (\<lambda>r. [])\<rparr>"

section \<open>types/events.ts\<close>

datatype event_type =
    Click | Scroll | Keydown | Keyup | Mousemove | Mousedown | Mouseup
  | Focus | Blur | Visibilitychange | Popstate | Beforeunload

text \<open>
  \<open>BaseEventPayload\<close> and the payloads that extend it. \<open>pointer_payload\<close> is the
  shape of click, mousemove, mousedown and mouseup; \<open>key_payload\<close> of keydown and keyup.
\<close>

record base_event_payload =
  ev_type :: event_type
  timestamp :: real

record pointer_payload = base_event_payload +
  pos_x :: real
  pos_y :: real
  button :: real

record scroll_payload = base_event_payload +
  scrollX :: real
  scrollY :: real

record key_payload = base_event_payload +
  key_name :: string
  keyCode :: string
  mod_alt :: bool
  mod_ctrl :: bool
  mod_shift :: bool
  mod_meta :: bool

datatype event_payload =
    PointerPayload pointer_payload
  | ScrollPayload scroll_payload
  | KeyPayload key_payload
  | OtherPayload base_event_payload

fun payload_type :: "event_payload \<Rightarrow> event_type" where
  "payload_type (PointerPayload p) = ev_type p"
| "payload_type (ScrollPayload p) = ev_type p"
| "payload_type (KeyPayload p) = ev_type p"
| "payload_type (OtherPayload p) = ev_type p"

fun payload_timestamp :: "event_payload \<Rightarrow> real" where
  "payload_timestamp (PointerPayload p) = timestamp p"
| "payload_timestamp (ScrollPayload p) = timestamp p"
| "payload_timestamp (KeyPayload p) = timestamp p"
| "payload_timestamp (OtherPayload p) = timestamp p"

text \<open>
  \<open>StoredEvent\<close> of the storage interface; \<open>event_record\<close> is \<open>Omit<StoredEvent, "id">\<close>,
  an event that has not been given its id yet.
\<close>

record event_record =
  se_type :: event_type
  se_timestamp :: real
  se_data :: event_payload
  extractorType :: string

record stored_event = event_record +
  se_id :: nat

section \<open>feature-extractor.ts\<close>

record 'f feature_result =
  features :: 'f
  hasData :: bool

text \<open>The base class: the listening flag and its two setters.\<close>

record feature_extractor =
  isListening :: bool

definition startListening_base :: "'a feature_extractor_scheme \<Rightarrow> 'a feature_extractor_scheme" where
  "startListening_base ex = ex\<lparr>isListening := True\<rparr>"

definition stopListening_base :: "'a feature_extractor_scheme \<Rightarrow> 'a feature_extractor_scheme" where
  "stopListening_base ex = ex\<lparr>isListening := False\<rparr>"

section \<open>Statistics\<close>

text \<open>\<open>xs.reduce((a, b) => a + b, 0)\<close>.\<close>

definition reduce_sum :: "real list \<Rightarrow> real" where
  "reduce_sum xs = foldl (+) 0 xs"

text \<open>
  Modelled from the spec: \<open>standardDeviation\<close> comes from the simple-statistics package,
  which is not part of the sources; the specification calls it the population standard
  deviation, the square root of the mean squared deviation from the mean.
\<close>

definition mean_of :: "real list \<Rightarrow> real" where
  "mean_of xs = sum_list xs / real (length xs)"

definition standardDeviation :: "real list \<Rightarrow> real" where
  "standardDeviation xs =
     sqrt (sum_list (map (\<lambda>v. (v - mean_of xs) ^ 2) xs) / real (length xs))"

section \<open>extractors/mouse-event-extractor.ts\<close>

record mouse_event_features =
  avgSpeed :: real
  stdSpeed :: real
  idleCount :: int
  mouseMoveCount :: int

definition MIN_MOVE_EVENTS :: nat where
  "MIN_MOVE_EVENTS = 5"

definition IDLE_THRESHOLD_MS :: real where
  "IDLE_THRESHOLD_MS = 2000"

record mouse_event_extractor = feature_extractor +
  mouseMoves :: "pointer_payload list"

definition mouse_handleMouseMove ::
  "pointer_payload \<Rightarrow> mouse_event_extractor \<Rightarrow> mouse_event_extractor" where
  "mouse_handleMouseMove payload ex = ex\<lparr>mouseMoves := mouseMoves ex @ [payload]\<rparr>"

text \<open>
  The stored events of one pointer event type, each reduced to its payload. A stored
  event carries the payload of its own type, so the other cases do not arise.
\<close>

fun pointer_data_of :: "event_type \<Rightarrow> stored_event list \<Rightarrow> pointer_payload list" where
  "pointer_data_of t [] = []"
| "pointer_data_of t (e # es) =
     (if se_type e = t
      then (case se_data e of
              PointerPayload p \<Rightarrow> p # pointer_data_of t es
            | _ \<Rightarrow> pointer_data_of t es)
      else pointer_data_of t es)"

definition mouse_processEvents ::
  "stored_event list \<Rightarrow> mouse_event_extractor \<Rightarrow> mouse_event_extractor" where
  "mouse_processEvents events ex =
     (let mouseMoveEvents = pointer_data_of Mousemove events in
      if length mouseMoveEvents > 0 then ex\<lparr>mouseMoves := mouseMoveEvents\<rparr> else ex)"

definition mouse_getDefaultFeatures :: mouse_event_features where
  "mouse_getDefaultFeatures =
     \<lparr>avgSpeed = - 1, stdSpeed = - 1, idleCount = - 1, mouseMoveCount = 0\<rparr>"

text \<open>The variables the loop of \<open>extractFeatures\<close> updates, and one turn of it.\<close>

record mouse_loop_state =
  speeds :: "real list"
  idle :: int
  lastTimestamp :: real

definition mouse_step ::
  "pointer_payload \<Rightarrow> pointer_payload \<Rightarrow> mouse_loop_state \<Rightarrow> mouse_loop_state" where
  "mouse_step prev cur st =
     (let timeDiff = (timestamp cur - timestamp prev) / 1000;
          dist = sqrt ((pos_x cur - pos_x prev) ^ 2 + (pos_y cur - pos_y prev) ^ 2);
          speeds1 = (if timeDiff > 0 then speeds st @ [dist / timeDiff] else speeds st);
          idle1 = (if timestamp cur - lastTimestamp st > IDLE_THRESHOLD_MS
                   then idle st + 1 else idle st);
          last1 = (if dist > 0 \<or> timeDiff < IDLE_THRESHOLD_MS / 1000
                   then timestamp cur else lastTimestamp st)
      in \<lparr>speeds = speeds1, idle = idle1, lastTimestamp = last1\<rparr>)"

fun mouse_loop ::
  "pointer_payload \<Rightarrow> pointer_payload list \<Rightarrow> mouse_loop_state \<Rightarrow> mouse_loop_state" where
  "mouse_loop prev [] st = st"
| "mouse_loop prev (cur # rest) st = mouse_loop cur rest (mouse_step prev cur st)"

text \<open>
  \<open>extractFeatures\<close>. The averages are reals, so the two \<open>isNaN\<close> tests of the source
  are false and the averages are returned as they are.
\<close>

definition mouse_extractFeatures ::
  "mouse_event_extractor \<Rightarrow> mouse_event_features feature_result" where
  "mouse_extractFeatures ex =
     (if length (mouseMoves ex) < MIN_MOVE_EVENTS
      then \<lparr>features = mouse_getDefaultFeatures, hasData = False\<rparr>
      else
        (case mouseMoves ex of
           [] \<Rightarrow> \<lparr>features = mouse_getDefaultFeatures, hasData = False\<rparr>
         | first # rest \<Rightarrow>
             (let currentMoves = mouseMoves ex;
                  st = mouse_loop first rest
                         \<lparr>speeds = [], idle = 0, lastTimestamp = timestamp first\<rparr>
              in if length (speeds st) = 0
                 then \<lparr>features = mouse_getDefaultFeatures
                                    \<lparr>mouseMoveCount := int (length currentMoves)\<rparr>,
                       hasData = False\<rparr>
                 else
                   (let avg = reduce_sum (speeds st) / real (length (speeds st));
                        std = (if length (speeds st) > 1
                               then standardDeviation (speeds st) else 0)
                    in \<lparr>features = \<lparr>avgSpeed = avg, stdSpeed = std, idleCount = idle st,
                                      mouseMoveCount = int (length currentMoves)\<rparr>,
                         hasData = True\<rparr>))))"

subsection \<open>Sample states of the extractor\<close>

definition move_at :: "real \<Rightarrow> real \<Rightarrow> real \<Rightarrow> pointer_payload" where
  "move_at t px py = \<lparr>ev_type = Mousemove, timestamp = t, pos_x = px, pos_y = py, button = 0\<rparr>"

text \<open>Three samples, one every 100 ms.\<close>

definition three_moves :: mouse_event_extractor where
  "three_moves =
     \<lparr>isListening = True,
      mouseMoves = [move_at 1000 0 0, move_at 1100 3 4, move_at 1200 6 8]\<rparr>"

text \<open>Five samples that carry one and the same timestamp.\<close>

definition five_simultaneous_moves :: mouse_event_extractor where
  "five_simultaneous_moves =
     \<lparr>isListening = True,
      mouseMoves = [move_at 1000 0 0, move_at 1000 1 0, move_at 1000 2 0,
                    move_at 1000 3 0, move_at 1000 4 0]\<rparr>"

text \<open>No sample is later than the one before it.\<close>

definition no_positive_delta :: "pointer_payload list \<Rightarrow> bool" where
  "no_positive_delta ms =
     list_all (\<lambda>pc. timestamp (snd pc) - timestamp (fst pc) \<le> 0) (zip ms (tl ms))"

section \<open>extractors/keyboard-event-extractor.ts\<close>

definition TYPING_BURST_THRESHOLD_MS :: real where
  "TYPING_BURST_THRESHOLD_MS = 3000"

record keyboard_activity_features =
  hasTypingEvents :: bool
  keyboardTypingConsistency :: real

record keyboard_event_extractor = feature_extractor +
  keyEvents :: "key_payload list"

definition handleKeydown ::
  "key_payload \<Rightarrow> keyboard_event_extractor \<Rightarrow> keyboard_event_extractor" where
  "handleKeydown payload ex = ex\<lparr>keyEvents := keyEvents ex @ [payload]\<rparr>"

fun key_data_of :: "event_type \<Rightarrow> stored_event list \<Rightarrow> key_payload list" where
  "key_data_of t [] = []"
| "key_data_of t (e # es) =
     (if se_type e = t
      then (case se_data e of
              KeyPayload p \<Rightarrow> p # key_data_of t es
            | _ \<Rightarrow> key_data_of t es)
      else key_data_of t es)"

definition keyboard_processEvents ::
  "stored_event list \<Rightarrow> keyboard_event_extractor \<Rightarrow> keyboard_event_extractor" where
  "keyboard_processEvents events ex =
     (let keydownEvents = key_data_of Keydown events in
      if length keydownEvents > 0 then ex\<lparr>keyEvents := keydownEvents\<rparr> else ex)"

definition keyboard_getDefaultFeatures :: keyboard_activity_features where
  "keyboard_getDefaultFeatures =
     \<lparr>hasTypingEvents = False, keyboardTypingConsistency = - 1\<rparr>"

text \<open>The loop that cuts the sorted events into bursts: its two variables, one turn.\<close>

record burst_loop_state =
  burstGroups :: "key_payload list list"
  currentBurst :: "key_payload list"

definition push_burst :: "burst_loop_state \<Rightarrow> key_payload list list" where
  "push_burst st =
     (if length (currentBurst st) > 1 then burstGroups st @ [currentBurst st]
      else burstGroups st)"

definition burst_step :: "key_payload \<Rightarrow> key_payload \<Rightarrow> burst_loop_state \<Rightarrow> burst_loop_state" where
  "burst_step prev cur st =
     (let timeDiff = timestamp cur - timestamp prev in
      if timeDiff > TYPING_BURST_THRESHOLD_MS
      then \<lparr>burstGroups = push_burst st, currentBurst = [cur]\<rparr>
      else st\<lparr>currentBurst := currentBurst st @ [cur]\<rparr>)"

fun burst_loop :: "key_payload \<Rightarrow> key_payload list \<Rightarrow> burst_loop_state \<Rightarrow> burst_loop_state" where
  "burst_loop prev [] st = st"
| "burst_loop prev (cur # rest) st = burst_loop cur rest (burst_step prev cur st)"

text \<open>The inner loop: \<open>burst[i].timestamp - burst[i - 1].timestamp\<close> for \<open>i\<close> from 1.\<close>

fun intervals_from :: "key_payload \<Rightarrow> key_payload list \<Rightarrow> real list" where
  "intervals_from prev [] = []"
| "intervals_from prev (cur # rest) =
     (timestamp cur - timestamp prev) # intervals_from cur rest"

definition burst_intervals :: "key_payload list \<Rightarrow> real list" where
  "burst_intervals burst = (case burst of [] \<Rightarrow> [] | first # rest \<Rightarrow> intervals_from first rest)"

definition burst_consistency :: "key_payload list \<Rightarrow> real" where
  "burst_consistency burst =
     (let intervals = burst_intervals burst in
      if length intervals = 0 then 0
      else
        (let stdDev = (if length intervals > 1 then standardDeviation intervals else 0);
             mean = reduce_sum intervals / real (length intervals)
         in if mean > 0 then stdDev / mean else 0))"

text \<open>
  \<open>calculateTypingConsistency\<close>. \<open>Array.prototype.sort\<close> with the comparator
  \<open>a.timestamp - b.timestamp\<close> is a stable ascending sort by timestamp.
\<close>

definition calculateTypingConsistency :: "keyboard_event_extractor \<Rightarrow> real" where
  "calculateTypingConsistency ex =
     (if length (keyEvents ex) < 2 then - 1
      else
        (case sort_key timestamp (keyEvents ex) of
           [] \<Rightarrow> - 1
         | first # rest \<Rightarrow>
             (let st = burst_loop first rest \<lparr>burstGroups = [], currentBurst = [first]\<rparr>;
                  groups = push_burst st
              in if length groups = 0 then - 1
                 else
                   (let burstConsistencies = map burst_consistency groups;
                        avgConsistency =
                          reduce_sum burstConsistencies / real (length burstConsistencies)
                    in 1 - min avgConsistency 1))))"

definition keyboard_extractFeatures ::
  "keyboard_event_extractor \<Rightarrow> keyboard_activity_features feature_result" where
  "keyboard_extractFeatures ex =
     (let typingConsistency = calculateTypingConsistency ex in
      \<lparr>features = \<lparr>hasTypingEvents = length (keyEvents ex) > 0,
                    keyboardTypingConsistency = typingConsistency\<rparr>,
       hasData = length (keyEvents ex) > 0\<rparr>)"

subsection \<open>Bursts and cadence as the specification words them\<close>










section \<open>storage/browser-event-storage.ts\<close>

text \<open>
  The storage object: its buffer, the flag that a flush is under way, and the object
  store of the database, each row an event with the session id it was written under.
\<close>

record browser_event_storage =
  sessionId :: string
  buffer :: "event_record list"
  isFlushPending :: bool
  idb :: "(string \<times> event_record) list"

definition BUFFER_SIZE :: nat where
  "BUFFER_SIZE = 50"

text \<open>Whether the transaction of \<open>storeEvents\<close> commits or fails.\<close>

datatype write_outcome = WriteOk | WriteFailed

text \<open>
  \<open>flush\<close> up to its \<open>await\<close>: nothing happens on an empty buffer or while another flush
  is pending; otherwise the flag is raised, the buffer is copied and cleared, and the
  copy is handed to \<open>storeEvents\<close>.
\<close>

definition flush_begin ::
  "browser_event_storage \<Rightarrow> browser_event_storage \<times> event_record list option" where
  "flush_begin st =
     (if length (buffer st) = 0 \<or> isFlushPending st then (st, None)
      else (let bufferCopy = buffer st
            in (st\<lparr>isFlushPending := True, buffer := []\<rparr>, Some bufferCopy)))"

text \<open>
  \<open>flush\<close> after its \<open>await\<close>: when the write went through, the rows are in the store and
  the flag is lowered; the \<open>catch\<close> branch sets the buffer to \<open>[...this.buffer,
  ...this.buffer]\<close> and lowers the flag.
\<close>

definition flush_end ::
  "write_outcome \<Rightarrow> event_record list \<Rightarrow> browser_event_storage \<Rightarrow> browser_event_storage" where
  "flush_end outcome bufferCopy st =
     (case outcome of
        WriteOk \<Rightarrow>
          st\<lparr>idb := idb st @ map (\<lambda>e. (sessionId st, e)) bufferCopy, isFlushPending := False\<rparr>
      | WriteFailed \<Rightarrow>
          st\<lparr>buffer := buffer st @ buffer st, isFlushPending := False\<rparr>)"

text \<open>
  What other callers do to the storage while a flush waits for its write. \<open>storeEvent\<close>
  pushes and, on a full buffer, calls \<open>flush\<close>; \<open>flushSync\<close> begins like \<open>flush\<close>;
  \<open>clearCurrentSessionEvents\<close> empties the buffer first.
\<close>

datatype storage_call =
    StoreEvent event_record
  | Flush
  | FlushSync
  | ClearCurrentSessionEvents

fun call_begin :: "storage_call \<Rightarrow> browser_event_storage \<Rightarrow> browser_event_storage" where
  "call_begin (StoreEvent e) st =
     (let st1 = st\<lparr>buffer := buffer st @ [e]\<rparr>
      in if length (buffer st1) \<ge> BUFFER_SIZE then fst (flush_begin st1) else st1)"
| "call_begin Flush st = fst (flush_begin st)"
| "call_begin FlushSync st = fst (flush_begin st)"
| "call_begin ClearCurrentSessionEvents st = st\<lparr>buffer := []\<rparr>"

text \<open>
  One whole \<open>flush\<close>: its beginning, the calls that reach the storage during the write,
  and its end with the outcome of the write.
\<close>

definition flush ::
  "write_outcome \<Rightarrow> storage_call list \<Rightarrow> browser_event_storage \<Rightarrow> browser_event_storage" where
  "flush outcome during st =
     (case flush_begin st of
        (st1, None) \<Rightarrow> st1
      | (st1, Some bufferCopy) \<Rightarrow> flush_end outcome bufferCopy (fold call_begin during st1))"

subsection \<open>A sample storage\<close>

definition stored_move :: "real \<Rightarrow> event_record" where
  "stored_move t =
     \<lparr>se_type = Mousemove, se_timestamp = t,
      se_data = PointerPayload \<lparr>ev_type = Mousemove, timestamp = t, pos_x = 0, pos_y = 0, button = 0\<rparr>,
      extractorType = ''MouseEventExtractor''\<rparr>"

definition two_buffered :: browser_event_storage where
  "two_buffered =
     \<lparr>sessionId = ''s1'', buffer = [stored_move 1, stored_move 2],
      isFlushPending = False, idb = []\<rparr>"

section \<open>utils/throttle.ts\<close>

text \<open>
  A payload object as the throttle sees it: its fields and \<open>ref\<close>, the identity that
  \<open>===\<close> compares.
\<close>

record event_object = base_event_payload +
  ref :: nat

type_synonym throttle_config = "event_type \<Rightarrow> real option"

definition DEFAULT_THROTTLE_CONFIG :: throttle_config where
  "DEFAULT_THROTTLE_CONFIG =
     [Mousemove \<mapsto> 50, Scroll \<mapsto> 100, Keydown \<mapsto> 50, Keyup \<mapsto> 50]"

text \<open>
  The two variables of the closure, and its surroundings: the callbacks handed to
  \<open>setTimeout\<close> that have not run yet, each with its due time and the payload it
  captured, the wall clock, and the calls made to the wrapped handler so far.
\<close>

record throttle_state =
  lastProcessedTimestamp :: real
  pendingEvent :: "event_object option"
  timers :: "(real \<times> event_object) list"
  now :: real
  handled :: "event_object list"

definition throttle_init :: throttle_state where
  "throttle_init =
     \<lparr>lastProcessedTimestamp = 0, pendingEvent = None, timers = [], now = 0, handled = []\<rparr>"

text \<open>The function returned for a configured event type.\<close>

definition throttled :: "real \<Rightarrow> event_object \<Rightarrow> throttle_state \<Rightarrow> throttle_state" where
  "throttled throttleTimeMs payload st =
     (let currentTimestamp = timestamp payload in
      if lastProcessedTimestamp st = 0
         \<or> currentTimestamp - lastProcessedTimestamp st \<ge> throttleTimeMs
      then st\<lparr>lastProcessedTimestamp := currentTimestamp,
              handled := handled st @ [payload],
              pendingEvent := None\<rparr>
      else
        (let timeToNextAllowedEvent =
               throttleTimeMs - (currentTimestamp - lastProcessedTimestamp st)
         in st\<lparr>pendingEvent := Some payload,
                 timers := timers st @ [(now st + timeToNextAllowedEvent, payload)]\<rparr>))"

text \<open>The callback given to \<open>setTimeout\<close>, for the payload it captured.\<close>

definition timer_callback :: "event_object \<Rightarrow> throttle_state \<Rightarrow> throttle_state" where
  "timer_callback payload st =
     (case pendingEvent st of
        None \<Rightarrow> st
      | Some pending \<Rightarrow>
          if ref pending = ref payload
          then st\<lparr>lastProcessedTimestamp := timestamp pending,
                  handled := handled st @ [pending],
                  pendingEvent := None\<rparr>
          else st)"

text \<open>An event type without a configured window gets the handler itself.\<close>

definition createThrottledEventHandler ::
  "event_type \<Rightarrow> throttle_config \<Rightarrow> event_object \<Rightarrow> throttle_state \<Rightarrow> throttle_state" where
  "createThrottledEventHandler eventType config =
     (case config eventType of
        None \<Rightarrow> (\<lambda>payload st. st\<lparr>handled := handled st @ [payload]\<rparr>)
      | Some throttleTimeMs \<Rightarrow> throttled throttleTimeMs)"

subsection \<open>The timer queue and the delivery of events\<close>

text \<open>
  Timers run in the order of their due times, equal times in the order they were set.
  When an event and a timer fall on the same instant, either may run first.
\<close>

datatype tie_order = TimersFirst | EventFirst

definition is_due :: "tie_order \<Rightarrow> real \<Rightarrow> real \<times> event_object \<Rightarrow> bool" where
  "is_due tie t tm = (case tie of TimersFirst \<Rightarrow> fst tm \<le> t | EventFirst \<Rightarrow> fst tm < t)"

definition run_timers :: "(real \<times> event_object) list \<Rightarrow> throttle_state \<Rightarrow> throttle_state" where
  "run_timers due st = fold (\<lambda>tm. timer_callback (snd tm)) (sort_key fst due) st"

definition advance :: "tie_order \<Rightarrow> real \<Rightarrow> throttle_state \<Rightarrow> throttle_state" where
  "advance tie t st =
     run_timers (filter (is_due tie t) (timers st))
       (st\<lparr>timers := filter (\<lambda>tm. \<not> is_due tie t tm) (timers st), now := t\<rparr>)"

text \<open>
  A live session: each event reaches the throttled handler at the wall-clock instant of
  its timestamp; the timers still waiting at the end run afterwards.
\<close>

definition live_session ::
  "tie_order \<Rightarrow> (event_object \<Rightarrow> throttle_state \<Rightarrow> throttle_state) \<Rightarrow> event_object list
   \<Rightarrow> throttle_state" where
  "live_session tie h events =
     (let st = fold (\<lambda>payload st. h payload (advance tie (timestamp payload) st))
                 events throttle_init
      in run_timers (timers st) (st\<lparr>timers := []\<rparr>))"

text \<open>
  A session pumped without delays (replay with \<open>realTime = false\<close>): all events reach the
  handler before any timer runs.
\<close>

definition instant_session ::
  "(event_object \<Rightarrow> throttle_state \<Rightarrow> throttle_state) \<Rightarrow> event_object list \<Rightarrow> throttle_state" where
  "instant_session h events =
     (let st = fold h events throttle_init
      in run_timers (timers st) (st\<lparr>timers := []\<rparr>))"

definition mousemove_at :: "nat \<Rightarrow> real \<Rightarrow> event_object" where
  "mousemove_at r t = \<lparr>ev_type = Mousemove, timestamp = t, ref = r\<rparr>"

text \<open>Four mousemove events at 0, 10, 20 and 60 ms, and the same four one second later.\<close>

definition events_from_zero :: "event_object list" where
  "events_from_zero = [mousemove_at 1 0, mousemove_at 2 10, mousemove_at 3 20, mousemove_at 4 60]"

definition events_from_1000 :: "event_object list" where
  "events_from_1000 =
     [mousemove_at 1 1000, mousemove_at 2 1010, mousemove_at 3 1020, mousemove_at 4 1060]"

definition mousemove_handler :: "event_object \<Rightarrow> throttle_state \<Rightarrow> throttle_state" where
  "mousemove_handler = createThrottledEventHandler Mousemove DEFAULT_THROTTLE_CONFIG"

section \<open>extractors/scroll-event-extractor.ts\<close>

definition ACTIVE_SCROLLING_THRESHOLD_MS :: real where
  "ACTIVE_SCROLLING_THRESHOLD_MS = 50"

record stored_scroll_event =
  scroll_timestamp :: real
  deltaY :: real

record scroll_activity_features =
  hasScrollEvents :: bool
  hasActiveScrolling :: bool

record scroll_event_extractor = feature_extractor +
  scrollEvents :: "stored_scroll_event list"

definition handleScroll :: "scroll_payload \<Rightarrow> scroll_event_extractor \<Rightarrow> scroll_event_extractor" where
  "handleScroll payload ex =
     ex\<lparr>scrollEvents := scrollEvents ex
           @ [\<lparr>scroll_timestamp = timestamp payload, deltaY = scrollY payload\<rparr>]\<rparr>"

fun scroll_data_of :: "stored_event list \<Rightarrow> stored_scroll_event list" where
  "scroll_data_of [] = []"
| "scroll_data_of (e # es) =
     (if se_type e = Scroll
      then (case se_data e of
              ScrollPayload p \<Rightarrow>
                \<lparr>scroll_timestamp = se_timestamp e, deltaY = scrollY p\<rparr> # scroll_data_of es
            | _ \<Rightarrow> scroll_data_of es)
      else scroll_data_of es)"

definition scroll_processEvents ::
  "stored_event list \<Rightarrow> scroll_event_extractor \<Rightarrow> scroll_event_extractor" where
  "scroll_processEvents events ex =
     (let found = scroll_data_of events in
      if length found > 0 then ex\<lparr>scrollEvents := found\<rparr> else ex)"

definition scroll_getDefaultFeatures :: scroll_activity_features where
  "scroll_getDefaultFeatures = \<lparr>hasScrollEvents = False, hasActiveScrolling = False\<rparr>"

text \<open>
  The grouping loop of \<open>hasActiveScrolling\<close>, which \<open>hasActiveMouseMovements\<close> of the click
  extractor repeats word for word on its own array: an event less than the threshold
  after the one before it joins the current group, any other closes the group and opens
  the next.
\<close>

record 'a group_loop_state =
  groups :: "'a list list"
  currentGroup :: "'a list"

definition group_step ::
  "('a \<Rightarrow> real) \<Rightarrow> real \<Rightarrow> 'a \<Rightarrow> 'a \<Rightarrow> 'a group_loop_state \<Rightarrow> 'a group_loop_state" where
  "group_step ts threshold prev cur st =
     (let timeDiff = ts cur - ts prev in
      if timeDiff < threshold then st\<lparr>currentGroup := currentGroup st @ [cur]\<rparr>
      else if length (currentGroup st) > 0
      then \<lparr>groups = groups st @ [currentGroup st], currentGroup = [cur]\<rparr>
      else st)"

fun group_loop ::
  "('a \<Rightarrow> real) \<Rightarrow> real \<Rightarrow> 'a \<Rightarrow> 'a list \<Rightarrow> 'a group_loop_state \<Rightarrow> 'a group_loop_state" where
  "group_loop ts threshold prev [] st = st"
| "group_loop ts threshold prev (cur # rest) st =
     group_loop ts threshold cur rest (group_step ts threshold prev cur st)"

definition has_active_run :: "('a \<Rightarrow> real) \<Rightarrow> real \<Rightarrow> 'a list \<Rightarrow> bool" where
  "has_active_run ts threshold events =
     (if length events < 2 then False
      else
        (case sort_key ts events of
           [] \<Rightarrow> False
         | first # rest \<Rightarrow>
             (let st = group_loop ts threshold first rest \<lparr>groups = [], currentGroup = [first]\<rparr>;
                  activeGroups = (if length (currentGroup st) > 0
                                  then groups st @ [currentGroup st] else groups st)
              in list_ex (\<lambda>g. length g > 1) activeGroups)))"

definition scroll_hasActiveScrolling :: "scroll_event_extractor \<Rightarrow> bool" where
  "scroll_hasActiveScrolling ex =
     has_active_run scroll_timestamp ACTIVE_SCROLLING_THRESHOLD_MS (scrollEvents ex)"

definition scroll_extractFeatures ::
  "scroll_event_extractor \<Rightarrow> scroll_activity_features feature_result" where
  "scroll_extractFeatures ex =
     \<lparr>features = \<lparr>hasScrollEvents = length (scrollEvents ex) > 0,
                   hasActiveScrolling = scroll_hasActiveScrolling ex\<rparr>,
      hasData = length (scrollEvents ex) > 0\<rparr>"

section \<open>extractors/click-event-extractor.ts\<close>

definition ACTIVE_MOVEMENT_THRESHOLD_MS :: real where
  "ACTIVE_MOVEMENT_THRESHOLD_MS = 50"

record activity_features =
  hasMouseEvents :: bool
  hasClickEvents :: bool
  hasActiveMouseMovement :: bool

record click_event_extractor = feature_extractor +
  click_mouseMoves :: "pointer_payload list"
  clicks :: "pointer_payload list"

definition click_handleMouseMove ::
  "pointer_payload \<Rightarrow> click_event_extractor \<Rightarrow> click_event_extractor" where
  "click_handleMouseMove payload ex = ex\<lparr>click_mouseMoves := click_mouseMoves ex @ [payload]\<rparr>"

definition handleClick :: "pointer_payload \<Rightarrow> click_event_extractor \<Rightarrow> click_event_extractor" where
  "handleClick payload ex = ex\<lparr>clicks := clicks ex @ [payload]\<rparr>"

definition click_processEvents ::
  "stored_event list \<Rightarrow> click_event_extractor \<Rightarrow> click_event_extractor" where
  "click_processEvents events ex =
     (let mouseMoveEvents = pointer_data_of Mousemove events;
          ex1 = (if length mouseMoveEvents > 0
                 then ex\<lparr>click_mouseMoves := mouseMoveEvents\<rparr> else ex);
          clickEvents = pointer_data_of Click events
      in if length clickEvents > 0 then ex1\<lparr>clicks := clickEvents\<rparr> else ex1)"

definition click_getDefaultFeatures :: activity_features where
  "click_getDefaultFeatures =
     \<lparr>hasMouseEvents = False, hasClickEvents = False, hasActiveMouseMovement = False\<rparr>"

definition hasActiveMouseMovements :: "click_event_extractor \<Rightarrow> bool" where
  "hasActiveMouseMovements ex =
     has_active_run timestamp ACTIVE_MOVEMENT_THRESHOLD_MS (click_mouseMoves ex)"

definition click_extractFeatures :: "click_event_extractor \<Rightarrow> activity_features feature_result" where
  "click_extractFeatures ex =
     \<lparr>features = \<lparr>hasMouseEvents = length (click_mouseMoves ex) > 0,
                   hasClickEvents = length (clicks ex) > 0,
                   hasActiveMouseMovement = hasActiveMouseMovements ex\<rparr>,
      hasData = length (click_mouseMoves ex) > 0 \<or> length (clicks ex) > 0\<rparr>"

section \<open>types/browser-metadata.ts, extractors/browser-metadata-extractor.ts\<close>

text \<open>
  The fields of \<open>BrowserMetadata\<close> that the extractor reads. The extractor guards every
  one of them with \<open>??\<close> or \<open>?.\<close>, so each may be missing.
\<close>

record resolution =
  res_width :: "real option"
  res_height :: "real option"

record webgl_info =
  webglVendor :: "string option"
  webglRenderer :: "string option"
  webglExtensions :: "real option"

record browser_metadata =
  md_devicePixelRatio :: "real option"
  md_screenResolution :: "resolution option"
  md_screenAvailResolution :: "resolution option"
  md_colorDepth :: "real option"
  md_plugins :: "string list option"
  md_deviceMemory :: "real option"
  md_hardwareConcurrency :: "real option"
  md_touchSupport :: "bool option"
  md_maxTouchPoints :: "real option"
  md_mediaDevicesCount :: "real option"
  md_platform :: "string option"
  md_doNotTrack :: "string option"
  md_webdriver :: "bool option"
  md_cookieEnabled :: "bool option"
  md_timezoneOffset :: "real option"
  md_timeZone :: "string option"
  md_webglInfo :: "webgl_info option"

record browser_metadata_features =
  devicePixelRatio :: real
  screenWidth :: real
  screenHeight :: real
  screenAvailWidth :: real
  screenAvailHeight :: real
  screenColorDepth :: real
  plugins :: real
  deviceMemory :: real
  hardwareConcurrency :: real
  touchSupport :: bool
  maxTouchPoints :: real
  mediaDevices :: real
  platform :: string
  doNotTrack :: string
  webdriver :: bool
  cookieEnabled :: bool
  timezoneOffset :: real
  timeZone :: string
  hasWebglSwiftshader :: bool

definition metadata_getDefaultFeatures :: browser_metadata_features where
  "metadata_getDefaultFeatures =
     \<lparr>devicePixelRatio = - 1, screenWidth = - 1, screenHeight = - 1,
      screenAvailWidth = - 1, screenAvailHeight = - 1, screenColorDepth = - 1,
      plugins = 0, deviceMemory = - 1, hardwareConcurrency = - 1,
      touchSupport = False, maxTouchPoints = 0, mediaDevices = 0,
      platform = ''unknown'', doNotTrack = ''unspecified'', webdriver = False,
      cookieEnabled = False, timezoneOffset = - 999, timeZone = ''unknown'',
      hasWebglSwiftshader = False\<rparr>"

text \<open>\<open>a ?? d\<close>, and \<open>a?.f\<close> for an optional \<open>a\<close> with an optional field.\<close>

definition nullish :: "'a option \<Rightarrow> 'a \<Rightarrow> 'a" where
  "nullish a d = (case a of None \<Rightarrow> d | Some v \<Rightarrow> v)"

definition opt_chain :: "'a option \<Rightarrow> ('a \<Rightarrow> 'b option) \<Rightarrow> 'b option" where
  "opt_chain a f = (case a of None \<Rightarrow> None | Some v \<Rightarrow> f v)"

text \<open>\<open>s.includes(sub)\<close>.\<close>

fun str_includes :: "string \<Rightarrow> string \<Rightarrow> bool" where
  "str_includes [] sub = (sub = [])"
| "str_includes (c # cs) sub = (take (length sub) (c # cs) = sub \<or> str_includes cs sub)"

text \<open>
  \<open>extractFeatures\<close>, given what \<open>metadataProvider.getMetadata()\<close> settles to: the
  metadata, or the error it rejects with, which the \<open>catch\<close> turns into the defaults.
\<close>

definition metadata_extractFeatures ::
  "error + browser_metadata \<Rightarrow> browser_metadata_features feature_result" where
  "metadata_extractFeatures fetched =
     (case fetched of
        Inl err \<Rightarrow> \<lparr>features = metadata_getDefaultFeatures, hasData = False\<rparr>
      | Inr metadata \<Rightarrow>
          (let d = metadata_getDefaultFeatures in
           \<lparr>features =
              \<lparr>devicePixelRatio = nullish (md_devicePixelRatio metadata) (devicePixelRatio d),
               screenWidth =
                 nullish (opt_chain (md_screenResolution metadata) res_width) (screenWidth d),
               screenHeight =
                 nullish (opt_chain (md_screenResolution metadata) res_height) (screenHeight d),
               screenAvailWidth =
                 nullish (opt_chain (md_screenAvailResolution metadata) res_width)
                   (screenAvailWidth d),
               screenAvailHeight =
                 nullish (opt_chain (md_screenAvailResolution metadata) res_height)
                   (screenAvailHeight d),
               screenColorDepth = nullish (md_colorDepth metadata) (screenColorDepth d),
               plugins =
                 nullish (map_option (\<lambda>ps. real (length ps)) (md_plugins metadata)) (plugins d),
               deviceMemory = nullish (md_deviceMemory metadata) (deviceMemory d),
               hardwareConcurrency =
                 nullish (md_hardwareConcurrency metadata) (hardwareConcurrency d),
               touchSupport = nullish (md_touchSupport metadata) (touchSupport d),
               maxTouchPoints = nullish (md_maxTouchPoints metadata) (maxTouchPoints d),
               mediaDevices = nullish (md_mediaDevicesCount metadata) (mediaDevices d),
               platform = nullish (md_platform metadata) (platform d),
               doNotTrack = nullish (md_doNotTrack metadata) (doNotTrack d),
               webdriver = nullish (md_webdriver metadata) (webdriver d),
               cookieEnabled = nullish (md_cookieEnabled metadata) (cookieEnabled d),
               timezoneOffset = nullish (md_timezoneOffset metadata) (timezoneOffset d),
               timeZone = nullish (md_timeZone metadata) (timeZone d),
               hasWebglSwiftshader =
                 nullish (map_option (\<lambda>r. str_includes r ''SwiftShader'')
                            (opt_chain (md_webglInfo metadata) webglRenderer))
                   (hasWebglSwiftshader d)\<rparr>,
             hasData = True\<rparr>))"

section \<open>environments/replay\<close>

record replay_event =
  re_type :: event_type
  href :: string
  re_timestamp :: real
  re_data :: event_payload

record replay_snapshot =
  snap_metadata :: browser_metadata
  snap_events :: "replay_event list"

text \<open>\<open>ReplayMetadataAdapter.getMetadata\<close> resolves with the recorded metadata.\<close>

definition ReplayMetadataAdapter_getMetadata :: "replay_snapshot \<Rightarrow> error + browser_metadata" where
  "ReplayMetadataAdapter_getMetadata snapshot = Inr (snap_metadata snapshot)"

text \<open>\<open>{ ...ev.data, timestamp: ev.timestamp }\<close>.\<close>

fun with_timestamp :: "real \<Rightarrow> event_payload \<Rightarrow> event_payload" where
  "with_timestamp t (PointerPayload p) = PointerPayload (p\<lparr>timestamp := t\<rparr>)"
| "with_timestamp t (ScrollPayload p) = ScrollPayload (p\<lparr>timestamp := t\<rparr>)"
| "with_timestamp t (KeyPayload p) = KeyPayload (p\<lparr>timestamp := t\<rparr>)"
| "with_timestamp t (OtherPayload p) = OtherPayload (p\<lparr>timestamp := t\<rparr>)"

text \<open>
  The listener table of the adapter. A handler is a function that changes whatever the
  handlers act on (the type \<open>'w\<close>); it is stored with a number that stands for its
  identity, which is what \<open>off\<close> compares.
\<close>

type_synonym 'w listener_table = "event_type \<Rightarrow> (nat \<times> (event_payload \<Rightarrow> 'w \<Rightarrow> 'w)) list"

definition replay_on ::
  "event_type \<Rightarrow> nat \<times> (event_payload \<Rightarrow> 'w \<Rightarrow> 'w) \<Rightarrow> 'w listener_table \<Rightarrow> 'w listener_table" where
  "replay_on evt h ls = ls(evt := ls evt @ [h])"

definition replay_off :: "event_type \<Rightarrow> nat \<Rightarrow> 'w listener_table \<Rightarrow> 'w listener_table" where
  "replay_off evt h ls = ls(evt := filter (\<lambda>l. fst l \<noteq> h) (ls evt))"

text \<open>What \<open>start\<close> does, in order: the waits of a real-time replay and the handler calls.\<close>

datatype replay_effect = Waited real | Called nat event_payload

record 'w replay_state =
  world :: 'w
  effects :: "replay_effect list"

definition replay_dispatch ::
  "event_payload \<Rightarrow> nat \<times> (event_payload \<Rightarrow> 'w \<Rightarrow> 'w) \<Rightarrow> 'w replay_state \<Rightarrow> 'w replay_state" where
  "replay_dispatch payload h st =
     \<lparr>world = snd h payload (world st), effects = effects st @ [Called (fst h) payload]\<rparr>"

fun replay_loop ::
  "bool \<Rightarrow> 'w listener_table \<Rightarrow> real \<Rightarrow> replay_event list \<Rightarrow> 'w replay_state \<Rightarrow> 'w replay_state" where
  "replay_loop realTime ls lastTs [] st = st"
| "replay_loop realTime ls lastTs (ev # evs) st =
     (let st1 = (if realTime \<and> re_timestamp ev > lastTs
                 then st\<lparr>effects := effects st @ [Waited (re_timestamp ev - lastTs)]\<rparr>
                 else st);
          payload = with_timestamp (re_timestamp ev) (re_data ev);
          st2 = fold (replay_dispatch payload) (ls (payload_type (re_data ev))) st1
      in replay_loop realTime ls (re_timestamp ev) evs st2)"

definition ReplayEventAdapter_start ::
  "bool \<Rightarrow> 'w listener_table \<Rightarrow> replay_event list \<Rightarrow> 'w \<Rightarrow> 'w replay_state" where
  "ReplayEventAdapter_start realTime ls events w =
     (case events of
        [] \<Rightarrow> \<lparr>world = w, effects = []\<rparr>
      | first # rest \<Rightarrow> replay_loop realTime ls (re_timestamp first) events \<lparr>world = w, effects = []\<rparr>)"

text \<open>\<open>ReplayEnvironment.start\<close> pumps the recorded events with \<open>realTime = false\<close>.\<close>

definition ReplayEnvironment_start ::
  "'w listener_table \<Rightarrow> replay_snapshot \<Rightarrow> 'w \<Rightarrow> 'w replay_state" where
  "ReplayEnvironment_start ls snapshot w =
     ReplayEventAdapter_start False ls (snap_events snapshot) w"

section \<open>The extractor family\<close>

text \<open>
  A user-supplied extractor class is represented by what its methods return: its name,
  its default features, the handlers it asks for, and what \<open>extractFeatures\<close> settles to,
  a result or the error it throws or rejects with. Its \<open>processEvents\<close> is taken to leave
  these as they are.
\<close>

record custom_extractor = feature_extractor +
  custom_name :: string
  custom_defaults :: features
  custom_handlers :: "event_type list"
  custom_result :: "error + features feature_result"

datatype extractor =
    BrowserMetadataEx feature_extractor
  | MouseEx mouse_event_extractor
  | KeyboardEx keyboard_event_extractor
  | ScrollEx scroll_event_extractor
  | ClickEx click_event_extractor
  | CustomEx custom_extractor

text \<open>The feature records as objects, keys in the order of the source's literals.\<close>

definition jnum :: "real \<Rightarrow> js_value" where
  "jnum r = JNumber (Fin r)"

definition mouse_features_obj :: "mouse_event_features \<Rightarrow> features" where
  "mouse_features_obj f =
     [(''avgSpeed'', jnum (avgSpeed f)), (''stdSpeed'', jnum (stdSpeed f)),
      (''idleCount'', jnum (real_of_int (idleCount f))),
      (''mouseMoveCount'', jnum (real_of_int (mouseMoveCount f)))]"

definition keyboard_features_obj :: "keyboard_activity_features \<Rightarrow> features" where
  "keyboard_features_obj f =
     [(''hasTypingEvents'', JBool (hasTypingEvents f)),
      (''keyboardTypingConsistency'', jnum (keyboardTypingConsistency f))]"

definition scroll_features_obj :: "scroll_activity_features \<Rightarrow> features" where
  "scroll_features_obj f =
     [(''hasScrollEvents'', JBool (hasScrollEvents f)),
      (''hasActiveScrolling'', JBool (hasActiveScrolling f))]"

definition click_features_obj :: "activity_features \<Rightarrow> features" where
  "click_features_obj f =
     [(''hasMouseEvents'', JBool (hasMouseEvents f)),
      (''hasClickEvents'', JBool (hasClickEvents f)),
      (''hasActiveMouseMovement'', JBool (hasActiveMouseMovement f))]"

definition metadata_features_obj :: "browser_metadata_features \<Rightarrow> features" where
  "metadata_features_obj f =
     [(''devicePixelRatio'', jnum (devicePixelRatio f)),
      (''screenWidth'', jnum (screenWidth f)),
      (''screenHeight'', jnum (screenHeight f)),
      (''screenAvailWidth'', jnum (screenAvailWidth f)),
      (''screenAvailHeight'', jnum (screenAvailHeight f)),
      (''screenColorDepth'', jnum (screenColorDepth f)),
      (''plugins'', jnum (plugins f)),
      (''deviceMemory'', jnum (deviceMemory f)),
      (''hardwareConcurrency'', jnum (hardwareConcurrency f)),
      (''touchSupport'', JBool (touchSupport f)),
      (''maxTouchPoints'', jnum (maxTouchPoints f)),
      (''mediaDevices'', jnum (mediaDevices f)),
      (''platform'', JStr (platform f)),
      (''doNotTrack'', JStr (doNotTrack f)),
      (''webdriver'', JBool (webdriver f)),
      (''cookieEnabled'', JBool (cookieEnabled f)),
      (''timezoneOffset'', jnum (timezoneOffset f)),
      (''timeZone'', JStr (timeZone f)),
      (''hasWebglSwiftshader'', JBool (hasWebglSwiftshader f))]"

definition as_object :: "('f \<Rightarrow> features) \<Rightarrow> 'f feature_result \<Rightarrow> features feature_result" where
  "as_object obj r = \<lparr>features = obj (features r), hasData = hasData r\<rparr>"

text \<open>The methods of the contract, by variant.\<close>

fun constructor_name :: "extractor \<Rightarrow> string" where
  "constructor_name (BrowserMetadataEx e) = ''BrowserMetadataExtractor''"
| "constructor_name (MouseEx e) = ''MouseEventExtractor''"
| "constructor_name (KeyboardEx e) = ''KeyboardEventExtractor''"
| "constructor_name (ScrollEx e) = ''ScrollEventExtractor''"
| "constructor_name (ClickEx e) = ''ClickEventExtractor''"
| "constructor_name (CustomEx e) = custom_name e"

fun ex_isListening :: "extractor \<Rightarrow> bool" where
  "ex_isListening (BrowserMetadataEx e) = isListening e"
| "ex_isListening (MouseEx e) = isListening e"
| "ex_isListening (KeyboardEx e) = isListening e"
| "ex_isListening (ScrollEx e) = isListening e"
| "ex_isListening (ClickEx e) = isListening e"
| "ex_isListening (CustomEx e) = isListening e"

fun ex_startListening :: "extractor \<Rightarrow> extractor" where
  "ex_startListening (BrowserMetadataEx e) = BrowserMetadataEx (startListening_base e)"
| "ex_startListening (MouseEx e) = MouseEx (startListening_base e)"
| "ex_startListening (KeyboardEx e) = KeyboardEx (startListening_base e)"
| "ex_startListening (ScrollEx e) = ScrollEx (startListening_base e)"
| "ex_startListening (ClickEx e) = ClickEx (startListening_base e)"
| "ex_startListening (CustomEx e) = CustomEx (startListening_base e)"

fun ex_stopListening :: "extractor \<Rightarrow> extractor" where
  "ex_stopListening (BrowserMetadataEx e) = BrowserMetadataEx (stopListening_base e)"
| "ex_stopListening (MouseEx e) = MouseEx (stopListening_base e)"
| "ex_stopListening (KeyboardEx e) = KeyboardEx (stopListening_base e)"
| "ex_stopListening (ScrollEx e) = ScrollEx (stopListening_base e)"
| "ex_stopListening (ClickEx e) = ClickEx (stopListening_base e)"
| "ex_stopListening (CustomEx e) = CustomEx (stopListening_base e)"

fun ex_getDefaultFeatures :: "extractor \<Rightarrow> features" where
  "ex_getDefaultFeatures (BrowserMetadataEx e) = metadata_features_obj metadata_getDefaultFeatures"
| "ex_getDefaultFeatures (MouseEx e) = mouse_features_obj mouse_getDefaultFeatures"
| "ex_getDefaultFeatures (KeyboardEx e) = keyboard_features_obj keyboard_getDefaultFeatures"
| "ex_getDefaultFeatures (ScrollEx e) = scroll_features_obj scroll_getDefaultFeatures"
| "ex_getDefaultFeatures (ClickEx e) = click_features_obj click_getDefaultFeatures"
| "ex_getDefaultFeatures (CustomEx e) = custom_defaults e"

text \<open>
  \<open>extractFeatures\<close>, given what the metadata port's \<open>getMetadata\<close> settles to. Only a
  user-supplied extractor can throw or reject.
\<close>

fun ex_extractFeatures ::
  "error + browser_metadata \<Rightarrow> extractor \<Rightarrow> error + features feature_result" where
  "ex_extractFeatures fetched (BrowserMetadataEx e) =
     Inr (as_object metadata_features_obj (metadata_extractFeatures fetched))"
| "ex_extractFeatures fetched (MouseEx e) =
     Inr (as_object mouse_features_obj (mouse_extractFeatures e))"
| "ex_extractFeatures fetched (KeyboardEx e) =
     Inr (as_object keyboard_features_obj (keyboard_extractFeatures e))"
| "ex_extractFeatures fetched (ScrollEx e) =
     Inr (as_object scroll_features_obj (scroll_extractFeatures e))"
| "ex_extractFeatures fetched (ClickEx e) =
     Inr (as_object click_features_obj (click_extractFeatures e))"
| "ex_extractFeatures fetched (CustomEx e) = custom_result e"

fun ex_processEvents :: "stored_event list \<Rightarrow> extractor \<Rightarrow> extractor" where
  "ex_processEvents events (BrowserMetadataEx e) = BrowserMetadataEx e"
| "ex_processEvents events (MouseEx e) = MouseEx (mouse_processEvents events e)"
| "ex_processEvents events (KeyboardEx e) = KeyboardEx (keyboard_processEvents events e)"
| "ex_processEvents events (ScrollEx e) = ScrollEx (scroll_processEvents events e)"
| "ex_processEvents events (ClickEx e) = ClickEx (click_processEvents events e)"
| "ex_processEvents events (CustomEx e) = CustomEx e"

text \<open>\<open>getEventHandlers\<close>: the event types of the handlers, in order.\<close>

fun ex_getEventHandlers :: "extractor \<Rightarrow> event_type list" where
  "ex_getEventHandlers (BrowserMetadataEx e) = []"
| "ex_getEventHandlers (MouseEx e) = [Mousemove]"
| "ex_getEventHandlers (KeyboardEx e) = [Keydown]"
| "ex_getEventHandlers (ScrollEx e) = [Scroll]"
| "ex_getEventHandlers (ClickEx e) = [Mousemove, Click]"
| "ex_getEventHandlers (CustomEx e) = custom_handlers e"

text \<open>The extractor classes, and what \<open>new\<close> gives for each.\<close>

datatype extractor_class =
    BrowserMetadataExtractor
  | MouseEventExtractor
  | KeyboardEventExtractor
  | ScrollEventExtractor
  | ClickEventExtractor
  | CustomExtractor custom_extractor

fun new_extractor :: "extractor_class \<Rightarrow> extractor" where
  "new_extractor BrowserMetadataExtractor = BrowserMetadataEx \<lparr>isListening = False\<rparr>"
| "new_extractor MouseEventExtractor = MouseEx \<lparr>isListening = False, mouseMoves = []\<rparr>"
| "new_extractor KeyboardEventExtractor = KeyboardEx \<lparr>isListening = False, keyEvents = []\<rparr>"
| "new_extractor ScrollEventExtractor = ScrollEx \<lparr>isListening = False, scrollEvents = []\<rparr>"
| "new_extractor ClickEventExtractor =
     ClickEx \<lparr>isListening = False, click_mouseMoves = [], clicks = []\<rparr>"
| "new_extractor (CustomExtractor c) = CustomEx (c\<lparr>isListening := False\<rparr>)"

definition DEFAULT_EXTRACTORS :: "extractor_class list" where
  "DEFAULT_EXTRACTORS =
     [BrowserMetadataExtractor, MouseEventExtractor, KeyboardEventExtractor,
      ScrollEventExtractor, ClickEventExtractor]"

section \<open>agent-detector.ts: preprocessing\<close>

text \<open>\<open>String(value)\<close> and \<open>parseFloat(value)\<close> on a value that is not a number.\<close>

fun ToString :: "js_builtins \<Rightarrow> js_value \<Rightarrow> string" where
  "ToString js (JNumber (Fin r)) = NumberToString js r"
| "ToString js (JNumber PosInf) = ''Infinity''"
| "ToString js (JNumber NegInf) = ''-Infinity''"
| "ToString js (JNumber NaN) = ''NaN''"
| "ToString js (JBool b) = (if b then ''true'' else ''false'')"
| "ToString js (JStr s) = s"
| "ToString js JNull = ''null''"
| "ToString js JUndefined = ''undefined''"
| "ToString js JObject = ''[object Object]''"

definition parseFloat :: "js_builtins \<Rightarrow> js_value \<Rightarrow> number" where
  "parseFloat js v = parseFloat_str js (ToString js v)"

text \<open>\<open>n || 0\<close> on a number: \<open>NaN\<close> and 0 are falsy.\<close>

fun or_zero :: "number \<Rightarrow> number" where
  "or_zero NaN = Fin 0"
| "or_zero n = n"

text \<open>
  One turn of the loop over \<open>Object.entries(features)\<close>. The test \<open>snakeCaseKey in
  numeric_features\<close> also holds for a name the table inherits from \<open>Object.prototype\<close>; the
  \<open>mean\<close> and \<open>std\<close> read from the inherited member are \<open>undefined\<close>, and the standardized
  value is \<open>NaN\<close>.
\<close>

definition preprocess_entry ::
  "js_builtins \<Rightarrow> preprocessing \<Rightarrow> string \<times> js_value \<Rightarrow> features \<Rightarrow> features" where
  "preprocess_entry js pp kv preprocessed =
     (let snakeCaseKey = toSnakeCase (fst kv); v = snd kv in
      case map_of (numeric_features pp) snakeCaseKey of
        Some (mean, std) \<Rightarrow>
          (let numericValue = (case v of JNumber n \<Rightarrow> n | _ \<Rightarrow> or_zero (parseFloat js v))
           in obj_set snakeCaseKey (JNumber (standardize js numericValue mean std)) preprocessed)
      | None \<Rightarrow>
          if snakeCaseKey \<in> set Object_prototype_names
          then obj_set snakeCaseKey (JNumber NaN) preprocessed
          else if snakeCaseKey \<in> set (boolean_features pp)
          then obj_set snakeCaseKey (JNumber (Fin (if v = JBool True then 1 else 0)))
                 preprocessed
          else
            (case map_of (categorical_features pp) snakeCaseKey of
               Some categories \<Rightarrow>
                 (let stringValue = ToString js v;
                      encodedValues = oneHotEncode stringValue categories
                  in fold (\<lambda>enc acc. obj_set (snakeCaseKey @ ''_'' @ fst enc) (snd enc) acc)
                       encodedValues preprocessed)
             | None \<Rightarrow> obj_set snakeCaseKey v preprocessed))"

definition preprocessFeatures ::
  "js_builtins \<Rightarrow> model_parameters option \<Rightarrow> features \<Rightarrow> features" where
  "preprocessFeatures js modelParameters fs =
     (case modelParameters of
        None \<Rightarrow> fs
      | Some mp \<Rightarrow>
          (case preprocessing mp of
             None \<Rightarrow> fs
           | Some pp \<Rightarrow> fold (preprocess_entry js pp) fs []))"

section \<open>model-parameters.ts\<close>

definition MODEL_PARAMETERS :: model_parameters where
  "MODEL_PARAMETERS =
     \<lparr>weights =
        [(''max_touch_points'', - 0.5143956069595789),
         (''device_pixel_ratio'', - 0.2863739691885242),
         (''media_devices'', - 0.08616739104082564),
         (''plugins'', - 0.49735439185648017),
         (''keyboard_typing_consistency'', - 0.1138474768087763),
         (''has_webgl_swiftshader'', 0),
         (''has_active_mouse_movement'', 0.13971990273315532),
         (''has_scroll_events'', 0.19480381603147318)],
      bias = 0.19480381603147318,
      feature_order =
        [''max_touch_points'', ''device_pixel_ratio'', ''media_devices'', ''plugins'',
         ''keyboard_typing_consistency'', ''has_webgl_swiftshader'',
         ''has_active_mouse_movement'', ''has_scroll_events''],
      preprocessing = Some
        \<lparr>numeric_features =
           [(''max_touch_points'', 0.38461538461538464, 1.3323467750529823),
            (''device_pixel_ratio'', 1.6000000009169946, 0.6421118990024256),
            (''hardware_concurrency'', 11.615384615384615, 4.3947251867956),
            (''device_memory'', 6.6923076923076925, 2.6423944672796416),
            (''media_devices'', 1.5384615384615385, 1.447299055555906),
            (''plugins'', 3.076923076923077, 2.4325212770525995),
            (''keyboard_typing_consistency'', 17.525329670796335, 22.662629369110885)],
         categorical_features = [],
         boolean_features =
           [''touch_support'', ''has_webgl_swiftshader'', ''has_active_scrolling'',
            ''has_mouse_events'', ''has_active_mouse_movement'', ''has_scroll_events'',
            ''has_click_events'', ''has_typing_events'']\<rparr>\<rparr>"

section \<open>logger.ts\<close>

datatype log_level = DEBUG | INFO | WARN | ERROR | NONE

fun level_num :: "log_level \<Rightarrow> nat" where
  "level_num DEBUG = 0"
| "level_num INFO = 1"
| "level_num WARN = 2"
| "level_num ERROR = 3"
| "level_num NONE = 4"

record logger =
  component :: string
  minLevel :: log_level
  forceEnabled :: bool

text \<open>
  \<open>Logger.log\<close>: what reaches the console, as level and formatted message; the data
  argument is left out.
\<close>

definition Logger_log ::
  "logger \<Rightarrow> string \<Rightarrow> log_level \<Rightarrow> (log_level \<times> string) list \<Rightarrow> (log_level \<times> string) list" where
  "Logger_log lg message level out =
     (if \<not> forceEnabled lg \<and> level_num level < level_num (minLevel lg) then out
      else if level = NONE then out
      else out @ [(level, ''['' @ component lg @ ''] '' @ message)])"

text \<open>A natural number in decimal, for the messages that interpolate one.\<close>

definition digit_char :: "nat \<Rightarrow> char" where
  "digit_char n = ''0123456789'' ! (n mod 10)"

function show_nat :: "nat \<Rightarrow> string" where
  "show_nat n = (if n < 10 then [digit_char n] else show_nat (n div 10) @ [digit_char n])"
  by pat_completeness auto
termination
  by (relation "measure id") auto

definition event_type_name :: "event_type \<Rightarrow> string" where
  "event_type_name t =
     (case t of
        Click \<Rightarrow> ''click'' | Scroll \<Rightarrow> ''scroll'' | Keydown \<Rightarrow> ''keydown''
      | Keyup \<Rightarrow> ''keyup'' | Mousemove \<Rightarrow> ''mousemove'' | Mousedown \<Rightarrow> ''mousedown''
      | Mouseup \<Rightarrow> ''mouseup'' | Focus \<Rightarrow> ''focus'' | Blur \<Rightarrow> ''blur''
      | Visibilitychange \<Rightarrow> ''visibilitychange'' | Popstate \<Rightarrow> ''popstate''
      | Beforeunload \<Rightarrow> ''beforeunload'')"

section \<open>storage/mock-event-storage.ts\<close>

record mock_event_storage =
  ms_sessionId :: string
  ms_events :: "stored_event list"
  ms_nextId :: nat
  ms_sessionStorage :: "string option"

definition mock_storeEvent :: "event_record \<Rightarrow> mock_event_storage \<Rightarrow> mock_event_storage" where
  "mock_storeEvent e st =
     st\<lparr>ms_events := ms_events st
           @ [\<lparr>se_type = se_type e, se_timestamp = se_timestamp e, se_data = se_data e,
               extractorType = extractorType e, se_id = ms_nextId st\<rparr>],
        ms_nextId := ms_nextId st + 1\<rparr>"

definition mock_checkForExistingSession :: "mock_event_storage \<Rightarrow> bool \<times> mock_event_storage" where
  "mock_checkForExistingSession st =
     (case ms_sessionStorage st of
        None \<Rightarrow> (False, st)
      | Some storedSessionId \<Rightarrow>
          if storedSessionId = [] then (False, st)
          else (True, st\<lparr>ms_sessionId := storedSessionId\<rparr>))"

definition mock_saveSessionToStorage :: "mock_event_storage \<Rightarrow> mock_event_storage" where
  "mock_saveSessionToStorage st = st\<lparr>ms_sessionStorage := Some (ms_sessionId st)\<rparr>"

definition mock_clearCurrentSessionEvents :: "mock_event_storage \<Rightarrow> mock_event_storage" where
  "mock_clearCurrentSessionEvents st = st\<lparr>ms_events := []\<rparr>"

section \<open>extractors-manager.ts, agent-detector.ts: the objects\<close>

text \<open>
  The manager. A registered handler is a closure made at registration; it is named by
  its event type and a number that no other closure has, and the same pair names it in
  the event port.
\<close>

record extractors_manager =
  extractors :: "extractor list"
  isActive :: bool
  registeredHandlers :: "(event_type \<times> nat) list"
  mgr_logger :: logger

text \<open>
  The detector, with the collaborators it holds: what the metadata port's \<open>getMetadata\<close>
  settles to, the handlers registered with the event port and how many handler closures
  have been made so far, the event storage (the in-memory one), and the console its
  loggers write to. The callback returns \<open>None\<close> when
  it returns normally and the error when it throws.
\<close>

record agent_detector =
  debug :: bool
  onDetectionCallback :: "(detection_result \<Rightarrow> error option) option"
  initialized :: bool
  modelParameters :: "model_parameters option"
  sessionRestored :: bool
  extractorsManager :: extractors_manager
  isDetectionActive :: bool
  isDetectionFinalizing :: bool
  logger :: logger
  metadataProvider :: "error + browser_metadata"
  eventsProvider :: "(event_type \<times> nat) list"
  handlersCreated :: nat
  eventStorage :: mock_event_storage
  console :: "(log_level \<times> string) list"

definition det_log :: "log_level \<Rightarrow> string \<Rightarrow> agent_detector \<Rightarrow> agent_detector" where
  "det_log level message d = d\<lparr>console := Logger_log (logger d) message level (console d)\<rparr>"

definition mgr_log :: "log_level \<Rightarrow> string \<Rightarrow> agent_detector \<Rightarrow> agent_detector" where
  "mgr_log level message d =
     d\<lparr>console := Logger_log (mgr_logger (extractorsManager d)) message level (console d)\<rparr>"

definition set_extractors :: "extractor list \<Rightarrow> agent_detector \<Rightarrow> agent_detector" where
  "set_extractors es d = d\<lparr>extractorsManager := (extractorsManager d)\<lparr>extractors := es\<rparr>\<rparr>"

section \<open>extractors-manager.ts\<close>

definition ExtractorsManager_new :: "bool \<Rightarrow> extractors_manager" where
  "ExtractorsManager_new dbg =
     \<lparr>extractors = [], isActive = False, registeredHandlers = [],
      mgr_logger = \<lparr>component = ''ExtractorsManager'',
                    minLevel = (if dbg then DEBUG else INFO), forceEnabled = False\<rparr>\<rparr>"

definition initExtractors :: "extractor_class list \<Rightarrow> agent_detector \<Rightarrow> agent_detector" where
  "initExtractors extractorClasses d =
     (let d1 = set_extractors (map new_extractor extractorClasses) d
      in mgr_log DEBUG (''Initialized '' @ show_nat (length (extractors (extractorsManager d1)))
                        @ '' extractors'') d1)"

text \<open>
  \<open>loadAndProcessEvents\<close> after its \<open>await\<close>, for one extractor: the stored events tagged
  with its class name are handed to it when there are any.
\<close>

definition load_for_extractor ::
  "stored_event list \<Rightarrow> nat \<Rightarrow> agent_detector \<Rightarrow> agent_detector" where
  "load_for_extractor allEvents i d =
     (let es = extractors (extractorsManager d);
          className = constructor_name (es ! i);
          extractorEvents = filter (\<lambda>event. extractorType event = className) allEvents
      in if length extractorEvents > 0
         then set_extractors (es[i := ex_processEvents extractorEvents (es ! i)])
                (mgr_log DEBUG (''Found '' @ show_nat (length extractorEvents) @ '' events for ''
                                @ className) d)
         else d)"

definition loadAndProcessEvents_resume :: "agent_detector \<Rightarrow> agent_detector" where
  "loadAndProcessEvents_resume d =
     (let allEvents = ms_events (eventStorage d);
          d1 = mgr_log DEBUG (''Loaded '' @ show_nat (length allEvents)
                              @ '' total events from storage'') d
      in fold (load_for_extractor allEvents) [0 ..< length (extractors (extractorsManager d1))] d1)"

text \<open>
  \<open>registerEventHandlers\<close>, for one handler of the extractor at position \<open>i\<close>: the wrapped,
  throttled handler is noted in the manager's map and registered with the event port.
\<close>

definition register_handler :: "nat \<Rightarrow> event_type \<Rightarrow> agent_detector \<Rightarrow> agent_detector" where
  "register_handler i eventType d =
     (let m = extractorsManager d;
          throttledHandler = (eventType, handlersCreated d);
          d1 = d\<lparr>extractorsManager :=
                   m\<lparr>registeredHandlers := registeredHandlers m @ [throttledHandler]\<rparr>,
                 eventsProvider := eventsProvider d @ [throttledHandler],
                 handlersCreated := handlersCreated d + 1\<rparr>
      in mgr_log DEBUG
           (''Registered ''
            @ (if DEFAULT_THROTTLE_CONFIG eventType \<noteq> None then ''throttled '' else '''')
            @ ''handler for '' @ event_type_name eventType @ '' event from ''
            @ constructor_name (extractors m ! i)) d1)"

definition registerEventHandlers :: "agent_detector \<Rightarrow> agent_detector" where
  "registerEventHandlers d =
     (let d1 = d\<lparr>extractorsManager := (extractorsManager d)\<lparr>registeredHandlers := []\<rparr>\<rparr>
      in fold (\<lambda>i d2. fold (register_handler i)
                        (ex_getEventHandlers (extractors (extractorsManager d2) ! i)) d2)
           [0 ..< length (extractors (extractorsManager d1))] d1)"

definition unregisterEventHandlers :: "agent_detector \<Rightarrow> agent_detector" where
  "unregisterEventHandlers d =
     (let m = extractorsManager d;
          d1 = d\<lparr>eventsProvider := filter (\<lambda>h. h \<notin> set (registeredHandlers m)) (eventsProvider d),
                 extractorsManager := m\<lparr>registeredHandlers := []\<rparr>\<rparr>
      in mgr_log DEBUG ''Unregistered all event handlers'' d1)"

text \<open>
  \<open>startListening\<close> up to its \<open>await\<close> of the stored events, and from there on. The second
  half runs when the storage has answered, after a first half that found the manager
  inactive.
\<close>

definition startListening_begin :: "agent_detector \<Rightarrow> agent_detector" where
  "startListening_begin d =
     (if isActive (extractorsManager d) then d
      else mgr_log DEBUG ''Loading and processing stored events for all extractors''
             (mgr_log DEBUG ''Starting extractors and registering event handlers'' d))"

definition startListening_resume :: "agent_detector \<Rightarrow> agent_detector" where
  "startListening_resume d =
     (let d1 = registerEventHandlers (loadAndProcessEvents_resume d);
          m = extractorsManager d1
      in d1\<lparr>extractorsManager := m\<lparr>extractors := map ex_startListening (extractors m),
                                    isActive := True\<rparr>\<rparr>)"

definition ExtractorsManager_stopListening :: "agent_detector \<Rightarrow> agent_detector" where
  "ExtractorsManager_stopListening d =
     (if \<not> isActive (extractorsManager d) then d
      else
        (let d1 = unregisterEventHandlers
                    (mgr_log DEBUG ''Stopping extractors and removing event handlers'' d);
             m = extractorsManager d1
         in d1\<lparr>extractorsManager := m\<lparr>extractors := map ex_stopListening (extractors m),
                                       isActive := False\<rparr>\<rparr>))"

section \<open>agent-detector.ts: the detection cycle\<close>

text \<open>\<open>{ ...a, ...b }\<close>.\<close>

definition spread2 :: "features \<Rightarrow> features \<Rightarrow> features" where
  "spread2 a b = obj_assign (obj_assign [] a) b"

text \<open>
  What the \<open>try\<close>/\<open>catch\<close> around one extractor yields. The extractors are typed, so the
  result of a successful \<open>extractFeatures\<close> is an object with its \<open>features\<close>.
\<close>

record extraction_outcome =
  oc_features :: features
  oc_hasData :: bool
  oc_error :: bool

definition extract_one :: "error + browser_metadata \<Rightarrow> extractor \<Rightarrow> extraction_outcome" where
  "extract_one fetched ex =
     (case ex_extractFeatures fetched ex of
        Inr featureResult \<Rightarrow>
          \<lparr>oc_features = spread2 (ex_getDefaultFeatures ex) (features featureResult),
           oc_hasData = hasData featureResult, oc_error = False\<rparr>
      | Inl err \<Rightarrow>
          \<lparr>oc_features = ex_getDefaultFeatures ex, oc_hasData = False, oc_error = True\<rparr>)"

definition log_extraction_error ::
  "error + browser_metadata \<Rightarrow> extractor \<Rightarrow> agent_detector \<Rightarrow> agent_detector" where
  "log_extraction_error fetched ex d =
     (case ex_extractFeatures fetched ex of
        Inr featureResult \<Rightarrow> d
      | Inl err \<Rightarrow>
          det_log ERROR (''Error extracting features from '' @ constructor_name ex @ '':'') d)"

definition extractFeatures :: "agent_detector \<Rightarrow> (error + features) \<times> agent_detector" where
  "extractFeatures d =
     (let d1 = det_log DEBUG ''Extracting features from all extractors...'' d in
      case modelParameters d1 of
        None \<Rightarrow> (Inl (Error ''Model parameters not loaded.''), d1)
      | Some mp \<Rightarrow>
          (let es = extractors (extractorsManager d1);
               results = map (extract_one (metadataProvider d1)) es;
               d2 = fold (log_extraction_error (metadataProvider d1)) es d1;
               combinedFeatures = fold (\<lambda>r combined. obj_assign combined (oc_features r)) results []
           in (Inr combinedFeatures, det_log DEBUG ''Raw features:'' d2)))"

definition invoke_callback :: "detection_result \<Rightarrow> agent_detector \<Rightarrow> error option" where
  "invoke_callback r d = (case onDetectionCallback d of None \<Rightarrow> None | Some cb \<Rightarrow> cb r)"

definition performDetection ::
  "js_builtins \<Rightarrow> agent_detector \<Rightarrow> (error + detection_result) \<times> agent_detector" where
  "performDetection js d =
     (case extractFeatures d of
        (Inl err, d1) \<Rightarrow> (Inl err, d1)
      | (Inr fs, d1) \<Rightarrow>
          (let preprocessedFeatures = preprocessFeatures js (modelParameters d1) fs;
               d2 = det_log DEBUG ''Scoring features...''
                      (det_log DEBUG ''Preprocessed features:'' d1)
           in case scoreFeatures js (modelParameters d2) preprocessedFeatures of
                Inl err \<Rightarrow> (Inl err, d2)
              | Inr r \<Rightarrow>
                  (let d3 = det_log DEBUG ''Detection result:'' d2
                   in case invoke_callback r d3 of
                        Some err \<Rightarrow> (Inl err, d3)
                      | None \<Rightarrow> (Inr r, d3))))"

section \<open>agent-detector.ts: the lifecycle\<close>

definition AgentDetector_new ::
  "error + browser_metadata \<Rightarrow> (event_type \<times> nat) list \<Rightarrow> mock_event_storage \<Rightarrow> agent_detector" where
  "AgentDetector_new metadata port storage =
     \<lparr>debug = False, onDetectionCallback = None, initialized = False,
      modelParameters = None, sessionRestored = False,
      extractorsManager = ExtractorsManager_new False,
      isDetectionActive = False, isDetectionFinalizing = False,
      logger = \<lparr>component = ''AgentDetector'', minLevel = INFO, forceEnabled = False\<rparr>,
      metadataProvider = metadata, eventsProvider = port, handlersCreated = 0,
      eventStorage = storage, console = []\<rparr>"

definition resetDetectionState :: "agent_detector \<Rightarrow> agent_detector" where
  "resetDetectionState d = d\<lparr>isDetectionActive := False, isDetectionFinalizing := False\<rparr>"

text \<open>
  \<open>startDetection\<close> never throws: it returns the detector. The listening it asks the manager
  for is not awaited; \<open>startListening_resume\<close> is what is left to run.
\<close>

definition startDetection :: "agent_detector \<Rightarrow> (error + unit) \<times> agent_detector" where
  "startDetection d =
     (if \<not> initialized d
      then (Inr (), det_log ERROR ''Cannot start detection - not initialized.'' d)
      else if isDetectionActive d
      then (Inr (), det_log WARN ''Detection already active, ignoring startDetection call'' d)
      else
        (let d1 = det_log DEBUG ''Starting detection...''
                    (d\<lparr>isDetectionActive := True, isDetectionFinalizing := False\<rparr>);
             d2 = startListening_begin d1
         in (Inr (), det_log DEBUG ''Detection started'' d2)))"

definition getCurrentDetectionResult ::
  "js_builtins \<Rightarrow> agent_detector \<Rightarrow> (error + detection_result) \<times> agent_detector" where
  "getCurrentDetectionResult js d =
     (if \<not> initialized d
      then (Inl (Error ''AgentDetector not initialized. Call init() first.''), d)
      else
        (let d1 = (if \<not> isDetectionActive d
                   then det_log WARN
                          (''Detection not active, results may be limited. ''
                           @ ''Consider calling startDetection() first.'') d
                   else d)
         in case performDetection js d1 of
              (Inr r, d2) \<Rightarrow> (Inr r, det_log DEBUG ''Current detection result'' d2)
            | (Inl err, d2) \<Rightarrow> (Inl err, det_log ERROR ''Error getting detection result:'' d2)))"

definition finalizeDetection ::
  "js_builtins \<Rightarrow> agent_detector \<Rightarrow> (error + detection_result) \<times> agent_detector" where
  "finalizeDetection js d =
     (if \<not> initialized d
      then (Inl (Error ''AgentDetector not initialized. Call init() first.''), d)
      else if isDetectionFinalizing d
      then performDetection js
             (det_log WARN ''Detection already finalizing, returning previous result'' d)
      else
        (let d1 = det_log DEBUG ''Finalizing detection...'' (d\<lparr>isDetectionFinalizing := True\<rparr>)
         in case performDetection js d1 of
              (Inr r, d2) \<Rightarrow>
                (let d3 = (ExtractorsManager_stopListening d2)
                            \<lparr>isDetectionActive := False, isDetectionFinalizing := False\<rparr>
                 in (Inr r, det_log DEBUG ''Detection finalized'' d3))
            | (Inl err, d2) \<Rightarrow>
                (Inl err, det_log ERROR ''Error finalizing detection:''
                            (d2\<lparr>isDetectionFinalizing := False\<rparr>))))"

definition cleanup :: "agent_detector \<Rightarrow> agent_detector" where
  "cleanup d =
     (let d1 = (if isDetectionActive d \<or> isDetectionFinalizing d
                then (ExtractorsManager_stopListening d)
                       \<lparr>isDetectionActive := False, isDetectionFinalizing := False\<rparr>
                else d);
          d2 = d1\<lparr>eventStorage := mock_clearCurrentSessionEvents (eventStorage d1)\<rparr>
      in det_log DEBUG ''Agent detector cleaned up'' d2)"

record init_options =
  opt_onDetection :: "(detection_result \<Rightarrow> error option) option"
  opt_debug :: "bool option"
  opt_extractorClasses :: "extractor_class list option"
  opt_autoStart :: "bool option"

text \<open>
  \<open>init\<close>. The callback it attaches to \<open>checkForExistingSession()\<close> runs after \<open>init\<close> has
  returned and is \<open>init_session_settled\<close>.
\<close>

definition init :: "init_options \<Rightarrow> agent_detector \<Rightarrow> agent_detector" where
  "init options d =
     (let dbg = (opt_debug options = Some True);
          autoStart = (case opt_autoStart options of None \<Rightarrow> True | Some a \<Rightarrow> a);
          d1 = d\<lparr>debug := dbg, onDetectionCallback := opt_onDetection options,
                 logger := (logger d)\<lparr>minLevel := (if dbg then DEBUG else INFO)\<rparr>,
                 extractorsManager := ExtractorsManager_new dbg\<rparr>;
          d2 = resetDetectionState d1;
          d3 = d2\<lparr>eventStorage := snd (mock_checkForExistingSession (eventStorage d2))\<rparr>;
          d4 = (case opt_extractorClasses options of
                  None \<Rightarrow>
                    det_log DEBUG ''Initialized default extractors using ExtractorsManager''
                      (initExtractors DEFAULT_EXTRACTORS d3)
                | Some classes \<Rightarrow>
                    if length classes > 0
                    then det_log DEBUG ''Initialized extractor classes using ExtractorsManager''
                           (initExtractors classes d3)
                    else det_log DEBUG ''Initialized default extractors using ExtractorsManager''
                           (initExtractors DEFAULT_EXTRACTORS d3));
          d5 = d4\<lparr>modelParameters := Some MODEL_PARAMETERS, initialized := True\<rparr>;
          d6 = det_log DEBUG (''Initialized with autoStart=''
                              @ (if autoStart then ''true'' else ''false'') @ ''.'') d5
      in if autoStart
         then snd (startDetection (det_log DEBUG ''Auto-starting detection...'' d6))
         else d6)"

definition init_session_settled :: "bool \<Rightarrow> agent_detector \<Rightarrow> agent_detector" where
  "init_session_settled hasExistingSession d =
     (if hasExistingSession
      then (det_log DEBUG ''Restored existing session from storage'' d)\<lparr>sessionRestored := True\<rparr>
      else det_log DEBUG ''Created new session and saved to storage''
             (d\<lparr>eventStorage := mock_saveSessionToStorage (eventStorage d)\<rparr>))"

subsection \<open>The merged vector as the specification words it\<close>

text \<open>
  What one extractor contributes: its default features, overridden by the features it
  produced; the defaults alone when its \<open>extractFeatures\<close> failed.
\<close>

definition contribution :: "error + browser_metadata \<Rightarrow> extractor \<Rightarrow> string \<Rightarrow> js_value option" where
  "contribution fetched ex =
     (case ex_extractFeatures fetched ex of
        Inr r \<Rightarrow> map_of (ex_getDefaultFeatures ex) ++ map_of (features r)
      | Inl err \<Rightarrow> map_of (ex_getDefaultFeatures ex))"

definition merged_spec ::
  "error + browser_metadata \<Rightarrow> extractor list \<Rightarrow> string \<Rightarrow> js_value option" where
  "merged_spec fetched es = foldl (++) Map.empty (map (contribution fetched) es)"

text \<open>
  What one detection cycle yields on a state: the features of all extractors, preprocessed
  and scored.
\<close>

definition detection_cycle :: "js_builtins \<Rightarrow> agent_detector \<Rightarrow> error + detection_result" where
  "detection_cycle js d =
     (case fst (extractFeatures d) of
        Inl err \<Rightarrow> Inl err
      | Inr fs \<Rightarrow>
          scoreFeatures js (modelParameters d) (preprocessFeatures js (modelParameters d) fs))"

text \<open>The callback, if there is one, returns normally whatever the result.\<close>

definition callback_returns :: "agent_detector \<Rightarrow> bool" where
  "callback_returns d = (\<forall>r. invoke_callback r d = None)"

subsection \<open>Sample detectors\<close>

definition empty_storage :: mock_event_storage where
  "empty_storage =
     \<lparr>ms_sessionId = ''session-1'', ms_events = [], ms_nextId = 1, ms_sessionStorage = None\<rparr>"

definition no_metadata :: "error + browser_metadata" where
  "no_metadata = Inl (Error ''metadata unavailable'')"

text \<open>A detector as its constructor leaves it.\<close>

definition fresh_detector :: agent_detector where
  "fresh_detector = AgentDetector_new no_metadata [] empty_storage"

definition default_options :: init_options where
  "default_options =
     \<lparr>opt_onDetection = None, opt_debug = None, opt_extractorClasses = None,
      opt_autoStart = None\<rparr>"

text \<open>
  After \<open>init()\<close> with the defaults, which starts detection, and once the listening it
  asked for is in place.
\<close>

definition active_detector :: agent_detector where
  "active_detector = startListening_resume (init default_options fresh_detector)"

text \<open>
  The detector as \<open>init()\<close> with the defaults returns it: detection is started, and the
  listening it asked for, which nothing awaits, has yet to hear from the storage (the
  browser storage answers \<open>getAllEvents\<close> once its database has). Then the states two
  calls of \<open>finalizeDetection\<close> in sequence leave, both made before the storage answers.
\<close>

definition pending_detector :: agent_detector where
  "pending_detector = init default_options fresh_detector"

definition finalized_once :: agent_detector where
  "finalized_once = snd (finalizeDetection js_plain pending_detector)"

definition finalized_twice :: agent_detector where
  "finalized_twice = snd (finalizeDetection js_plain finalized_once)"

text \<open>A user-supplied extractor whose \<open>extractFeatures\<close> throws.\<close>

definition failing_extractor :: custom_extractor where
  "failing_extractor =
     \<lparr>isListening = False, custom_name = ''FailingExtractor'',
      custom_defaults = [(''probe'', JNumber (Fin (- 1)))],
      custom_handlers = [],
      custom_result = Inl (Error ''probe failed'')\<rparr>"

definition detector_with_failure :: agent_detector where
  "detector_with_failure =
     init (default_options\<lparr>opt_extractorClasses :=
                              Some [CustomExtractor failing_extractor, ScrollEventExtractor],
                            opt_autoStart := Some False\<rparr>)
       fresh_detector"

text \<open>
  An association list stands for an object when no key occurs twice. The objects of an
  extractor are its default features and, when \<open>extractFeatures\<close> succeeds, the features
  it produced.
\<close>

definition is_object :: "features \<Rightarrow> bool" where
  "is_object fs = distinct (map fst fs)"

definition proper_extractor :: "error + browser_metadata \<Rightarrow> extractor \<Rightarrow> bool" where
  "proper_extractor fetched ex =
     (is_object (ex_getDefaultFeatures ex)
      \<and> (case ex_extractFeatures fetched ex of
            Inr r \<Rightarrow> is_object (features r)
          | Inl err \<Rightarrow> True))"

text \<open>A second state differs from a first in the console at most.\<close>

definition console_only :: "agent_detector \<Rightarrow> agent_detector \<Rightarrow> bool" where
  "console_only d d' = (d' = d\<lparr>console := console d'\<rparr>)"

text \<open>The classes \<open>init\<close> instantiates: the ones given, the default set when none is.\<close>

definition classes_of :: "init_options \<Rightarrow> extractor_class list" where
  "classes_of options =
     (case opt_extractorClasses options of
        None \<Rightarrow> DEFAULT_EXTRACTORS
      | Some classes \<Rightarrow> if length classes > 0 then classes else DEFAULT_EXTRACTORS)"

subsection \<open>A detector on a replay environment\<close>

text \<open>Whether an extractor reports \<open>hasData\<close>.\<close>

definition reports_data :: "error + browser_metadata \<Rightarrow> extractor \<Rightarrow> bool" where
  "reports_data fetched ex =
     (case ex_extractFeatures fetched ex of Inr r \<Rightarrow> hasData r | Inl err \<Rightarrow> False)"

text \<open>
  The detector of a replay environment: constructed on the snapshot's metadata adapter,
  an event port without listeners and the environment's storage, initialised with the
  default options, listening in place.
\<close>

definition replay_detector :: "replay_snapshot \<Rightarrow> mock_event_storage \<Rightarrow> agent_detector" where
  "replay_detector snapshot storage =
     startListening_resume
       (init default_options
          (AgentDetector_new (ReplayMetadataAdapter_getMetadata snapshot) [] storage))"

definition sample_metadata :: browser_metadata where
  "sample_metadata =
     \<lparr>md_devicePixelRatio = Some 2,
      md_screenResolution = Some \<lparr>res_width = Some 1920, res_height = Some 1080\<rparr>,
      md_screenAvailResolution = None,
      md_colorDepth = Some 24,
      md_plugins = Some [''PDF Viewer''],
      md_deviceMemory = None,
      md_hardwareConcurrency = Some 8,
      md_touchSupport = Some False,
      md_maxTouchPoints = Some 0,
      md_mediaDevicesCount = None,
      md_platform = Some ''Linux x86_64'',
      md_doNotTrack = None,
      md_webdriver = Some True,
      md_cookieEnabled = Some True,
      md_timezoneOffset = Some 0,
      md_timeZone = Some ''UTC'',
      md_webglInfo = Some \<lparr>webglVendor = None,
                             webglRenderer = Some ''Google SwiftShader'',
                             webglExtensions = None\<rparr>\<rparr>"

text \<open>A snapshot that recorded metadata and no event.\<close>

definition empty_snapshot :: replay_snapshot where
  "empty_snapshot = \<lparr>snap_metadata = sample_metadata, snap_events = []\<rparr>"

text \<open>The flags and collaborators that listening leaves alone.\<close>

definition same_flags :: "agent_detector \<Rightarrow> agent_detector \<Rightarrow> bool" where
  "same_flags d d' =
     (initialized d' = initialized d \<and> modelParameters d' = modelParameters d
      \<and> onDetectionCallback d' = onDetectionCallback d
      \<and> isDetectionActive d' = isDetectionActive d
      \<and> isDetectionFinalizing d' = isDetectionFinalizing d
      \<and> metadataProvider d' = metadataProvider d
      \<and> eventStorage d' = eventStorage d)"

text \<open>An adapter on which nothing is registered.\<close>

definition no_listeners :: "agent_detector listener_table" where
  "no_listeners = (\<lambda>evt. [])"

section \<open>Scoring\<close>










text \<open>
  Where no operation rounds and every present weighted feature converts to a finite
  number, the sum is the bias plus the real sum of the products.
\<close>

lemma linear_sum_exact:
  assumes exact: "round_double js = Fin"
    and finite: "\<forall>e \<in> set ws. is_present fs (fst e) \<longrightarrow>
                   ToNumber js (obj_get fs (fst e)) = Fin (val (fst e))"
  shows "foldl (num_plus js) (Fin a)
           (map (\<lambda>e. num_times js (ToNumber js (obj_get fs (fst e))) (Fin (snd e)))
              (present_weights fs ws))
         = Fin (a + (\<Sum>e \<leftarrow> present_weights fs ws. val (fst e) * snd e))"
  using finite
proof (induction ws arbitrary: a)
  case Nil
  show ?case
    by (simp add: present_weights_def)
next
  case (Cons e ws)
  from Cons.prems have rest: "\<forall>e \<in> set ws. is_present fs (fst e) \<longrightarrow>
      ToNumber js (obj_get fs (fst e)) = Fin (val (fst e))"
    by simp
  show ?case
  proof (cases "is_present fs (fst e)")
    case True
    with Cons.prems have v: "ToNumber js (obj_get fs (fst e)) = Fin (val (fst e))"
      by simp
    from True v exact show ?thesis
      using Cons.IH [OF rest, of "a + val (fst e) * snd e"]
      by (simp add: present_weights_def algebra_simps)
  next
    case False
    then show ?thesis
      using Cons.IH [OF rest, of a] by (simp add: present_weights_def)
  qed
qed




section \<open>Pointer motion\<close>

lemma mouse_loop_no_speed:
  "no_positive_delta (prev # ms) \<Longrightarrow> speeds st = [] \<Longrightarrow> speeds (mouse_loop prev ms st) = []"
proof (induction ms arbitrary: prev st)
  case Nil
  then show ?case by simp
next
  case (Cons cur rest)
  from Cons.prems(1) have step: "timestamp cur - timestamp prev \<le> 0"
    and tail: "no_positive_delta (cur # rest)"
    by (simp_all add: no_positive_delta_def)
  from step Cons.prems(2) have "speeds (mouse_step prev cur st) = []"
    by (simp add: mouse_step_def Let_def)
  with Cons.IH [OF tail] show ?case
    by simp
qed

text \<open>
  C10. With at least five recorded samples of which none is later than the one before
  it, no speed can be computed: \<open>extractFeatures\<close> reports \<open>hasData = false\<close> with the
  sentinel speed features and with \<open>mouseMoveCount\<close> equal to the number of samples.
\<close>

theorem mouse_no_speed_reports_count:
  assumes "MIN_MOVE_EVENTS \<le> length (mouseMoves ex)"
    and "no_positive_delta (mouseMoves ex)"
  shows "mouse_extractFeatures ex =
           \<lparr>features = \<lparr>avgSpeed = - 1, stdSpeed = - 1, idleCount = - 1,
                         mouseMoveCount = int (length (mouseMoves ex))\<rparr>,
            hasData = False\<rparr>"
proof (cases "mouseMoves ex")
  case Nil
  with assms(1) show ?thesis by (simp add: MIN_MOVE_EVENTS_def)
next
  case (Cons first rest)
  with assms(2) have
    "speeds (mouse_loop first rest \<lparr>speeds = [], idle = 0, lastTimestamp = timestamp first\<rparr>) = []"
    by (intro mouse_loop_no_speed) simp_all
  with assms(1) Cons show ?thesis
    by (simp add: mouse_extractFeatures_def mouse_getDefaultFeatures_def Let_def)
qed

theorem mouse_no_speed_reports_count_witness:
  "MIN_MOVE_EVENTS \<le> length (mouseMoves five_simultaneous_moves)
   \<and> no_positive_delta (mouseMoves five_simultaneous_moves)
   \<and> mouse_extractFeatures five_simultaneous_moves =
           \<lparr>features = \<lparr>avgSpeed = - 1, stdSpeed = - 1, idleCount = - 1, mouseMoveCount = 5\<rparr>,
            hasData = False\<rparr>"
proof -
  have a: "MIN_MOVE_EVENTS \<le> length (mouseMoves five_simultaneous_moves)"
    by (simp add: MIN_MOVE_EVENTS_def five_simultaneous_moves_def)
  have b: "no_positive_delta (mouseMoves five_simultaneous_moves)"
    by (simp add: no_positive_delta_def five_simultaneous_moves_def move_at_def)
  have c: "int (length (mouseMoves five_simultaneous_moves)) = 5"
    by (simp add: five_simultaneous_moves_def)
  from a b mouse_no_speed_reports_count [OF a b] show ?thesis
    unfolding c by simp
qed

lemma mouse_few_samples_defaults:
  "length (mouseMoves ex) < MIN_MOVE_EVENTS \<Longrightarrow>
   mouse_extractFeatures ex = \<lparr>features = mouse_getDefaultFeatures, hasData = False\<rparr>"
  by (simp add: mouse_extractFeatures_def)

text \<open>
  C2. With three recorded samples \<open>extractFeatures\<close> reports \<open>hasData = false\<close> and the
  sentinel speed features, and its \<open>mouseMoveCount\<close> is 0, not the number of samples.
\<close>

theorem mouse_three_samples_count_zero:
  "length (mouseMoves three_moves) = 3
   \<and> mouse_extractFeatures three_moves =
       \<lparr>features = \<lparr>avgSpeed = - 1, stdSpeed = - 1, idleCount = - 1, mouseMoveCount = 0\<rparr>,
        hasData = False\<rparr>
   \<and> mouseMoveCount (features (mouse_extractFeatures three_moves))
       \<noteq> int (length (mouseMoves three_moves))"
  by (simp add: mouse_extractFeatures_def three_moves_def MIN_MOVE_EVENTS_def
      mouse_getDefaultFeatures_def)

section \<open>Keyboard cadence\<close>





















section \<open>Event storage\<close>

lemma call_begin_pending:
  "isFlushPending st \<Longrightarrow> isFlushPending (call_begin c st) \<and> idb (call_begin c st) = idb st"
  by (cases c) (simp_all add: flush_begin_def Let_def)

lemma calls_pending:
  "isFlushPending st \<Longrightarrow>
   isFlushPending (fold call_begin cs st) \<and> idb (fold call_begin cs st) = idb st"
  by (induction cs arbitrary: st) (simp_all add: call_begin_pending)

lemma store_events_pending:
  "isFlushPending st \<Longrightarrow>
   buffer (fold call_begin (map StoreEvent es) st) = buffer st @ es"
proof (induction es arbitrary: st)
  case Nil
  then show ?case by simp
next
  case (Cons e es)
  have step: "call_begin (StoreEvent e) st = st\<lparr>buffer := buffer st @ [e]\<rparr>"
    using Cons.prems by (simp add: flush_begin_def Let_def)
  show ?case
    using Cons.IH [of "st\<lparr>buffer := buffer st @ [e]\<rparr>"] Cons.prems
    by (simp add: step del: call_begin.simps)
qed

lemma failed_flush_facts:
  assumes "buffer st \<noteq> []" and "\<not> isFlushPending st"
  shows "buffer (flush WriteFailed during st) =
           buffer (fold call_begin during (st\<lparr>isFlushPending := True, buffer := []\<rparr>))
           @ buffer (fold call_begin during (st\<lparr>isFlushPending := True, buffer := []\<rparr>))"
    and "buffer (flush WriteFailed (map StoreEvent arrived) st) = arrived @ arrived"
    and "buffer (flush WriteFailed [] st) = []"
    and "idb (flush WriteFailed during st) = idb st"
    and "\<not> isFlushPending (flush WriteFailed during st)"
proof -
  let ?st1 = "st\<lparr>isFlushPending := True, buffer := []\<rparr>"
  have fb: "flush_begin st = (?st1, Some (buffer st))"
    using assms by (simp add: flush_begin_def)
  have fl: "flush WriteFailed cs st =
            (fold call_begin cs ?st1)\<lparr>buffer := buffer (fold call_begin cs ?st1)
                                                  @ buffer (fold call_begin cs ?st1),
                                        isFlushPending := False\<rparr>" for cs
    by (simp add: flush_def fb flush_end_def)
  show "buffer (flush WriteFailed during st) =
           buffer (fold call_begin during ?st1) @ buffer (fold call_begin during ?st1)"
    by (simp add: fl)
  show "buffer (flush WriteFailed (map StoreEvent arrived) st) = arrived @ arrived"
    using store_events_pending [of ?st1 arrived] by (simp add: fl)
  show "buffer (flush WriteFailed [] st) = []"
    by (simp add: fl)
  show "idb (flush WriteFailed during st) = idb st"
    using calls_pending [of ?st1 during] by (simp add: fl)
  show "\<not> isFlushPending (flush WriteFailed during st)"
    by (simp add: fl)
qed

text \<open>
  C5. When \<open>flush\<close> runs on a non-empty buffer with no other flush pending and its write
  fails, the buffer afterwards is the buffer as it stands at that moment (what arrived
  since the buffer was cleared) followed by itself. The events of the failed batch are
  neither put back into the buffer nor written to the store: with nothing arrived in the
  meantime the buffer is left empty.
\<close>

theorem failed_flush_doubles_current_buffer:
  assumes "buffer st \<noteq> []" and "\<not> isFlushPending st"
  shows "buffer (flush WriteFailed during st) =
           buffer (fold call_begin during (st\<lparr>isFlushPending := True, buffer := []\<rparr>))
           @ buffer (fold call_begin during (st\<lparr>isFlushPending := True, buffer := []\<rparr>))
         \<and> buffer (flush WriteFailed (map StoreEvent arrived) st) = arrived @ arrived
         \<and> buffer (flush WriteFailed [] st) = []
         \<and> idb (flush WriteFailed during st) = idb st"
  using failed_flush_facts(1) [OF assms, of during] failed_flush_facts(2) [OF assms, of arrived]
    failed_flush_facts(3) [OF assms] failed_flush_facts(4) [OF assms, of during]
  by simp

theorem failed_flush_doubles_current_buffer_witness:
  "buffer two_buffered = [stored_move 1, stored_move 2]
   \<and> \<not> isFlushPending two_buffered
   \<and> buffer (flush WriteFailed (map StoreEvent [stored_move 3]) two_buffered)
       = [stored_move 3, stored_move 3]
   \<and> buffer (flush WriteFailed [] two_buffered) = []
   \<and> idb (flush WriteFailed [] two_buffered) = []"
proof -
  have a: "buffer two_buffered \<noteq> []" and b: "\<not> isFlushPending two_buffered"
    by (simp_all add: two_buffered_def)
  have c: "buffer two_buffered = [stored_move 1, stored_move 2]" and d: "idb two_buffered = []"
    by (simp_all add: two_buffered_def)
  from failed_flush_doubles_current_buffer [OF a b, of "[]" "[stored_move 3]"] b c d
  show ?thesis
    by simp
qed

section \<open>Event throttle\<close>

lemmas throttle_eval =
  live_session_def instant_session_def mousemove_handler_def createThrottledEventHandler_def
  DEFAULT_THROTTLE_CONFIG_def throttled_def timer_callback_def advance_def run_timers_def
  is_due_def throttle_init_def mousemove_at_def Let_def

text \<open>
  The leading edge: an event that finds \<open>lastProcessedTimestamp\<close> at 0, or at least one
  window behind its own timestamp, goes to the handler at once and clears what was
  pending.
\<close>

lemma throttled_leading_edge:
  "lastProcessedTimestamp st = 0 \<or> w \<le> timestamp p - lastProcessedTimestamp st \<Longrightarrow>
   throttled w p st =
     st\<lparr>lastProcessedTimestamp := timestamp p, handled := handled st @ [p], pendingEvent := None\<rparr>"
  by (simp add: throttled_def)

text \<open>
  With every timestamp one second later the handler is called three times: for the first
  event, for the later of the two throttled ones when its timer runs, and for the last.
\<close>

lemma throttle_trace_from_1000:
  "map timestamp (handled (live_session tie mousemove_handler events_from_1000))
   = [1000, 1020, 1060]"
  by (cases tie) (simp_all add: throttle_eval events_from_1000_def)

lemma throttle_trace_instant:
  "map timestamp (handled (instant_session mousemove_handler events_from_zero)) = [0, 10, 60]"
  by (simp add: throttle_eval events_from_zero_def)

text \<open>
  C7. For the 50 ms window and events timestamped 0, 10, 20 and 60 the event at 10 is
  handled at once, because the first event leaves \<open>lastProcessedTimestamp\<close> at 0. The
  handler is called for 0, 10 and 60 when the last event comes before the timer set at
  20 runs, and four times, for 0, 10, 20 and 60, when that timer runs first; it is never
  called for 0, 20 and 60.
\<close>

theorem throttle_trace_from_zero:
  "map timestamp (handled (live_session EventFirst mousemove_handler events_from_zero))
     = [0, 10, 60]
   \<and> map timestamp (handled (live_session TimersFirst mousemove_handler events_from_zero))
     = [0, 10, 20, 60]
   \<and> length (handled (live_session TimersFirst mousemove_handler events_from_zero)) = 4"
  by (simp add: throttle_eval events_from_zero_def)

section \<open>Detector and replay\<close>

lemma console_only_refl: "console_only d d"
  by (simp add: console_only_def)

lemma console_only_trans: "console_only a b \<Longrightarrow> console_only b c \<Longrightarrow> console_only a c"
  unfolding console_only_def
proof -
  assume ab: "b = a\<lparr>console := console b\<rparr>" and bc: "c = b\<lparr>console := console c\<rparr>"
  have "c = (a\<lparr>console := console b\<rparr>)\<lparr>console := console c\<rparr>"
    using bc by (subst (asm) ab) simp
  then show "c = a\<lparr>console := console c\<rparr>"
    by simp
qed

lemma console_only_update: "console_only d (d\<lparr>console := c\<rparr>)"
  by (simp add: console_only_def)

lemma console_only_fields:
  assumes "console_only d d'"
  shows "initialized d' = initialized d" "modelParameters d' = modelParameters d"
    "onDetectionCallback d' = onDetectionCallback d" "extractorsManager d' = extractorsManager d"
    "isDetectionActive d' = isDetectionActive d" "isDetectionFinalizing d' = isDetectionFinalizing d"
    "logger d' = logger d" "metadataProvider d' = metadataProvider d"
    "eventsProvider d' = eventsProvider d" "eventStorage d' = eventStorage d"
    "debug d' = debug d" "sessionRestored d' = sessionRestored d"
proof -
  from assms have eq: "d' = d\<lparr>console := console d'\<rparr>"
    by (simp add: console_only_def)
  show "initialized d' = initialized d" by (subst eq) simp
  show "modelParameters d' = modelParameters d" by (subst eq) simp
  show "onDetectionCallback d' = onDetectionCallback d" by (subst eq) simp
  show "extractorsManager d' = extractorsManager d" by (subst eq) simp
  show "isDetectionActive d' = isDetectionActive d" by (subst eq) simp
  show "isDetectionFinalizing d' = isDetectionFinalizing d" by (subst eq) simp
  show "logger d' = logger d" by (subst eq) simp
  show "metadataProvider d' = metadataProvider d" by (subst eq) simp
  show "eventsProvider d' = eventsProvider d" by (subst eq) simp
  show "eventStorage d' = eventStorage d" by (subst eq) simp
  show "debug d' = debug d" by (subst eq) simp
  show "sessionRestored d' = sessionRestored d" by (subst eq) simp
qed

lemma det_log_console: "console_only d (det_log level message d)"
  by (simp add: det_log_def console_only_def)

lemma mgr_log_console: "console_only d (mgr_log level message d)"
  by (simp add: mgr_log_def console_only_def)

lemma log_errors_console: "console_only d (fold (log_extraction_error fetched) es d)"
proof (induction es arbitrary: d)
  case Nil
  show ?case by (simp add: console_only_refl)
next
  case (Cons ex es)
  have "console_only d (log_extraction_error fetched ex d)"
    by (cases "ex_extractFeatures fetched ex")
      (simp_all add: log_extraction_error_def console_only_refl det_log_console)
  from console_only_trans [OF this Cons.IH] show ?case
    by simp
qed

lemma map_add_upd_swap:
  "k \<notin> dom n \<Longrightarrow> (m(k \<mapsto> v)) ++ n = m ++ (n(k \<mapsto> v))"
  by (auto simp: fun_eq_iff map_add_def split: option.splits)

lemma map_of_obj_assign:
  "is_object src \<Longrightarrow> map_of (obj_assign target src) = map_of target ++ map_of src"
proof (induction src arbitrary: target)
  case Nil
  then show ?case by (simp add: obj_assign_def)
next
  case (Cons kv src)
  obtain k v where kv: "kv = (k, v)" by (cases kv)
  from Cons.prems kv have fresh: "k \<notin> dom (map_of src)" and rest: "is_object src"
    by (auto simp: is_object_def dom_map_of_conv_image_fst)
  have "map_of (obj_assign target (kv # src)) = map_of (obj_assign (AList.update k v target) src)"
    by (simp add: obj_assign_def kv)
  also have "\<dots> = map_of (AList.update k v target) ++ map_of src"
    using rest by (rule Cons.IH)
  also have "\<dots> = map_of target ++ map_of (kv # src)"
    using fresh by (simp add: update_conv' kv map_add_upd_swap)
  finally show ?case .
qed

lemma is_object_obj_assign: "is_object target \<Longrightarrow> is_object (obj_assign target src)"
proof (induction src arbitrary: target)
  case Nil
  then show ?case by (simp add: obj_assign_def)
next
  case (Cons kv src)
  obtain k v where kv: "kv = (k, v)" by (cases kv)
  from Cons.prems have "is_object (AList.update k v target)"
    by (simp add: is_object_def distinct_update)
  from Cons.IH [OF this] show ?case
    by (simp add: obj_assign_def kv)
qed

lemma builtin_extractors_proper:
  "(\<exists>c. ex = CustomEx c) \<or> proper_extractor fetched ex"
  by (cases ex)
    (simp_all add: proper_extractor_def is_object_def as_object_def metadata_features_obj_def
      mouse_features_obj_def keyboard_features_obj_def scroll_features_obj_def
      click_features_obj_def)

lemma extract_one_contribution:
  "proper_extractor fetched ex \<Longrightarrow>
   map_of (oc_features (extract_one fetched ex)) = contribution fetched ex
   \<and> is_object (oc_features (extract_one fetched ex))"
proof (cases "ex_extractFeatures fetched ex")
  case (Inl err)
  assume "proper_extractor fetched ex"
  with Inl show ?thesis
    by (simp add: extract_one_def contribution_def proper_extractor_def)
next
  case (Inr r)
  assume "proper_extractor fetched ex"
  with Inr have a: "is_object (ex_getDefaultFeatures ex)" and b: "is_object (features r)"
    by (simp_all add: proper_extractor_def)
  have e: "is_object []" by (simp add: is_object_def)
  show ?thesis
    using Inr a b e
    by (simp add: extract_one_def contribution_def spread2_def map_of_obj_assign
        is_object_obj_assign)
qed

lemma combine_outcomes:
  "(\<And>r. r \<in> set rs \<Longrightarrow> is_object (oc_features r)) \<Longrightarrow>
   map_of (fold (\<lambda>r combined. obj_assign combined (oc_features r)) rs acc)
   = foldl (++) (map_of acc) (map (\<lambda>r. map_of (oc_features r)) rs)"
proof (induction rs arbitrary: acc)
  case Nil
  show ?case by simp
next
  case (Cons r rs)
  have "is_object (oc_features r)"
    using Cons.prems by simp
  then show ?case
    using Cons.IH [of "obj_assign acc (oc_features r)"] Cons.prems
    by (simp add: map_of_obj_assign)
qed

lemma extractFeatures_unfold:
  "modelParameters d = Some mp \<Longrightarrow>
   extractFeatures d =
     (Inr (fold (\<lambda>r combined. obj_assign combined (oc_features r))
            (map (extract_one (metadataProvider d)) (extractors (extractorsManager d))) []),
      det_log DEBUG ''Raw features:''
        (fold (log_extraction_error (metadataProvider d)) (extractors (extractorsManager d))
           (det_log DEBUG ''Extracting features from all extractors...'' d)))"
  unfolding extractFeatures_def Let_def det_log_def
  by simp

lemma extractFeatures_console:
  assumes "modelParameters d = Some mp"
  shows "console_only d (snd (extractFeatures d))"
proof -
  let ?d1 = "det_log DEBUG ''Extracting features from all extractors...'' d"
  let ?d2 = "fold (log_extraction_error (metadataProvider d)) (extractors (extractorsManager d)) ?d1"
  have "console_only d ?d1" by (rule det_log_console)
  moreover have "console_only ?d1 ?d2" by (rule log_errors_console)
  moreover have "console_only ?d2 (det_log DEBUG ''Raw features:'' ?d2)" by (rule det_log_console)
  ultimately have "console_only d (det_log DEBUG ''Raw features:'' ?d2)"
    by (blast intro: console_only_trans)
  then show ?thesis
    by (simp only: extractFeatures_unfold [OF assms] snd_conv)
qed

lemma scoreFeatures_Some: "\<exists>r. scoreFeatures js (Some mp) fs = Inr r"
  by (simp add: scoreFeatures_def Let_def)

lemma invoke_callback_console: "console_only d d' \<Longrightarrow> invoke_callback r d' = invoke_callback r d"
  by (simp add: invoke_callback_def console_only_fields(3))

lemma performDetection_loaded:
  assumes mp: "modelParameters d = Some mp" and cb: "callback_returns d"
  shows "\<exists>r d'. performDetection js d = (Inr r, d') \<and> console_only d d'"
proof -
  obtain fs d1 where ef: "extractFeatures d = (Inr fs, d1)"
    using extractFeatures_unfold [OF mp] by blast
  have c1: "console_only d d1"
    using extractFeatures_console [OF mp] ef by simp
  define d2 where
    "d2 = det_log DEBUG ''Scoring features...'' (det_log DEBUG ''Preprocessed features:'' d1)"
  have c2: "console_only d d2"
    unfolding d2_def by (blast intro: console_only_trans c1 det_log_console)
  have mp2: "modelParameters d2 = Some mp"
    using console_only_fields(2) [OF c2] mp by simp
  obtain r where sc: "scoreFeatures js (modelParameters d2)
                        (preprocessFeatures js (modelParameters d1) fs) = Inr r"
    using scoreFeatures_Some [of js mp] mp2 by auto
  define d3 where "d3 = det_log DEBUG ''Detection result:'' d2"
  have c3: "console_only d d3"
    unfolding d3_def by (blast intro: console_only_trans c2 det_log_console)
  have call: "invoke_callback r d3 = None"
    using invoke_callback_console [OF c3] cb by (simp add: callback_returns_def)
  have "performDetection js d = (Inr r, d3)"
    unfolding performDetection_def ef
    by (simp add: Let_def d2_def [symmetric] sc d3_def [symmetric] call)
  with c3 show ?thesis
    by blast
qed

lemma performDetection_result:
  assumes mp: "modelParameters d = Some mp" and cb: "callback_returns d"
  shows "fst (performDetection js d) = detection_cycle js d"
    and "\<not> isl (detection_cycle js d)"
    and "console_only d (snd (performDetection js d))"
proof -
  obtain fs d1 where ef: "extractFeatures d = (Inr fs, d1)"
    using extractFeatures_unfold [OF mp] by blast
  have c1: "console_only d d1"
    using extractFeatures_console [OF mp] ef by simp
  define d2 where
    "d2 = det_log DEBUG ''Scoring features...'' (det_log DEBUG ''Preprocessed features:'' d1)"
  have c2: "console_only d d2"
    unfolding d2_def by (blast intro: console_only_trans c1 det_log_console)
  have mp1: "modelParameters d1 = Some mp"
    using console_only_fields(2) [OF c1] mp by simp
  have mp2: "modelParameters d2 = Some mp"
    using console_only_fields(2) [OF c2] mp by simp
  obtain r where sc: "scoreFeatures js (Some mp) (preprocessFeatures js (Some mp) fs) = Inr r"
    using scoreFeatures_Some [of js mp] by auto
  define d3 where "d3 = det_log DEBUG ''Detection result:'' d2"
  have c3: "console_only d d3"
    unfolding d3_def by (blast intro: console_only_trans c2 det_log_console)
  have call: "invoke_callback r d3 = None"
    using invoke_callback_console [OF c3] cb by (simp add: callback_returns_def)
  have pd: "performDetection js d = (Inr r, d3)"
    unfolding performDetection_def ef
    by (simp add: Let_def d2_def [symmetric] mp1 mp2 sc d3_def [symmetric] call)
  have dc: "detection_cycle js d = Inr r"
    by (simp add: detection_cycle_def ef mp sc)
  from pd dc show "fst (performDetection js d) = detection_cycle js d"
    by simp
  from dc show "\<not> isl (detection_cycle js d)"
    by simp
  from pd c3 show "console_only d (snd (performDetection js d))"
    by simp
qed

lemma detection_cycle_cong:
  assumes "modelParameters d' = modelParameters d"
    and "metadataProvider d' = metadataProvider d"
    and "extractors (extractorsManager d') = extractors (extractorsManager d)"
  shows "detection_cycle js d' = detection_cycle js d"
proof (cases "modelParameters d")
  case None
  with assms(1) show ?thesis
    by (simp add: detection_cycle_def extractFeatures_def Let_def det_log_def)
next
  case (Some mp)
  with assms(1) have "modelParameters d' = Some mp"
    by simp
  from extractFeatures_unfold [OF this] extractFeatures_unfold [OF Some] assms show ?thesis
    by (simp add: detection_cycle_def)
qed

lemma stopListening_storage:
  "eventStorage (ExtractorsManager_stopListening d) = eventStorage d"
  "metadataProvider (ExtractorsManager_stopListening d) = metadataProvider d"
  unfolding ExtractorsManager_stopListening_def unregisterEventHandlers_def mgr_log_def Let_def
  by simp_all

lemma stopListening_fields:
  "initialized (ExtractorsManager_stopListening d) = initialized d"
  "modelParameters (ExtractorsManager_stopListening d) = modelParameters d"
  "onDetectionCallback (ExtractorsManager_stopListening d) = onDetectionCallback d"
  "extractorsManager (ExtractorsManager_stopListening d) =
     (if isActive (extractorsManager d)
      then (extractorsManager d)\<lparr>extractors := map ex_stopListening (extractors (extractorsManager d)),
                                isActive := False, registeredHandlers := []\<rparr>
      else extractorsManager d)"
  "eventsProvider (ExtractorsManager_stopListening d) =
     (if isActive (extractorsManager d)
      then filter (\<lambda>h. h \<notin> set (registeredHandlers (extractorsManager d))) (eventsProvider d)
      else eventsProvider d)"
  unfolding ExtractorsManager_stopListening_def unregisterEventHandlers_def mgr_log_def Let_def
  by simp_all

lemma finalize_step:
  assumes ini: "initialized d" and mp: "modelParameters d = Some mp"
    and nf: "\<not> isDetectionFinalizing d" and cb: "callback_returns d"
  shows "fst (finalizeDetection js d) = detection_cycle js d"
    and "\<not> isl (detection_cycle js d)"
    and "initialized (snd (finalizeDetection js d))"
    and "modelParameters (snd (finalizeDetection js d)) = Some mp"
    and "\<not> isDetectionFinalizing (snd (finalizeDetection js d))"
    and "\<not> isDetectionActive (snd (finalizeDetection js d))"
    and "callback_returns (snd (finalizeDetection js d))"
    and "extractorsManager (snd (finalizeDetection js d))
           = extractorsManager (ExtractorsManager_stopListening d)"
    and "eventsProvider (snd (finalizeDetection js d))
           = eventsProvider (ExtractorsManager_stopListening d)"
    and "eventStorage (snd (finalizeDetection js d)) = eventStorage d"
    and "metadataProvider (snd (finalizeDetection js d)) = metadataProvider d"
proof -
  define d1 where "d1 = det_log DEBUG ''Finalizing detection...'' (d\<lparr>isDetectionFinalizing := True\<rparr>)"
  have f1: "initialized d1" "modelParameters d1 = Some mp"
    "onDetectionCallback d1 = onDetectionCallback d" "extractorsManager d1 = extractorsManager d"
    "eventsProvider d1 = eventsProvider d" "eventStorage d1 = eventStorage d"
    "metadataProvider d1 = metadataProvider d"
    using ini mp by (simp_all add: d1_def det_log_def)
  have cb1: "callback_returns d1"
    using cb f1(3) by (simp add: callback_returns_def invoke_callback_def)
  note pr = performDetection_result [OF f1(2) cb1, of js]
  have same: "detection_cycle js d1 = detection_cycle js d"
    by (rule detection_cycle_cong) (simp_all add: f1 mp)
  from pr(2) obtain r where r: "detection_cycle js d1 = Inr r"
    by (cases "detection_cycle js d1") simp_all
  define d2 where "d2 = snd (performDetection js d1)"
  have pd: "performDetection js d1 = (Inr r, d2)"
    using pr(1) r by (simp add: d2_def prod_eq_iff)
  have c2: "console_only d1 d2"
    using pr(3) by (simp add: d2_def)
  note f2 = console_only_fields [OF c2]
  define d3 where
    "d3 = (ExtractorsManager_stopListening d2)\<lparr>isDetectionActive := False, isDetectionFinalizing := False\<rparr>"
  define d4 where "d4 = det_log DEBUG ''Detection finalized'' d3"
  have fin: "finalizeDetection js d = (Inr r, d4)"
    using ini nf unfolding finalizeDetection_def
    by (simp add: Let_def d1_def [symmetric] pd d3_def [symmetric] d4_def [symmetric])
  have sl: "extractorsManager (ExtractorsManager_stopListening d2)
              = extractorsManager (ExtractorsManager_stopListening d)"
    "eventsProvider (ExtractorsManager_stopListening d2)
              = eventsProvider (ExtractorsManager_stopListening d)"
    by (simp_all add: stopListening_fields f2(4) f2(9) f1(4) f1(5))
  have f4: "initialized d4" "modelParameters d4 = Some mp"
    "onDetectionCallback d4 = onDetectionCallback d"
    "\<not> isDetectionFinalizing d4" "\<not> isDetectionActive d4"
    "extractorsManager d4 = extractorsManager (ExtractorsManager_stopListening d)"
    "eventsProvider d4 = eventsProvider (ExtractorsManager_stopListening d)"
    "eventStorage d4 = eventStorage d" "metadataProvider d4 = metadataProvider d"
    by (simp_all add: d4_def det_log_def d3_def stopListening_fields(1-3) stopListening_storage
        sl f2(1-3) f2(8) f2(10) f1(1-3) f1(6) f1(7))
  have cb4: "callback_returns d4"
    using cb f4(3) by (simp add: callback_returns_def invoke_callback_def)
  from fin r same show "fst (finalizeDetection js d) = detection_cycle js d"
    by simp
  from r same show "\<not> isl (detection_cycle js d)"
    by simp
  from fin f4 show "initialized (snd (finalizeDetection js d))"
    and "modelParameters (snd (finalizeDetection js d)) = Some mp"
    and "\<not> isDetectionFinalizing (snd (finalizeDetection js d))"
    and "\<not> isDetectionActive (snd (finalizeDetection js d))"
    and "extractorsManager (snd (finalizeDetection js d))
           = extractorsManager (ExtractorsManager_stopListening d)"
    and "eventsProvider (snd (finalizeDetection js d))
           = eventsProvider (ExtractorsManager_stopListening d)"
    and "eventStorage (snd (finalizeDetection js d)) = eventStorage d"
    and "metadataProvider (snd (finalizeDetection js d)) = metadataProvider d"
    by simp_all
  from fin cb4 show "callback_returns (snd (finalizeDetection js d))"
    by simp
qed

text \<open>
  Where listening is in place: on an initialized detector with no finalization under
  way, whose manager is active, two calls of \<open>finalizeDetection\<close> in sequence both return
  the result of a detection cycle (the result callback, if any, returning normally). The
  first call stops listening: the manager becomes inactive, its handlers leave the event
  port and no extractor listens any more. The second call leaves the manager and the
  event port as the first left them.
\<close>

lemma finalize_twice_when_listening:
  fixes js :: js_builtins and d :: agent_detector
  assumes "initialized d" and "modelParameters d = Some mp"
    and "\<not> isDetectionFinalizing d"
    and "isActive (extractorsManager d)" and "callback_returns d"
  defines "d1 \<equiv> snd (finalizeDetection js d)"
  defines "d2 \<equiv> snd (finalizeDetection js d1)"
  shows "fst (finalizeDetection js d) = detection_cycle js d"
    and "\<not> isl (detection_cycle js d)"
    and "fst (finalizeDetection js d1) = detection_cycle js d1"
    and "\<not> isl (detection_cycle js d1)"
    and "\<not> isActive (extractorsManager d1)"
    and "registeredHandlers (extractorsManager d1) = []"
    and "list_all (\<lambda>ex. \<not> ex_isListening ex) (extractors (extractorsManager d1))"
    and "eventsProvider d1 =
           filter (\<lambda>h. h \<notin> set (registeredHandlers (extractorsManager d))) (eventsProvider d)"
    and "extractorsManager d2 = extractorsManager d1"
    and "eventsProvider d2 = eventsProvider d1"
    and "\<not> isDetectionActive d1" and "\<not> isDetectionActive d2"
proof -
  note s1 = finalize_step [OF assms(1,2,3,5), of js, folded d1_def]
  note s2 = finalize_step [OF s1(3,4,5,7), of js, folded d2_def]
  show "fst (finalizeDetection js d) = detection_cycle js d" by (rule s1(1))
  show "\<not> isl (detection_cycle js d)" by (rule s1(2))
  show "fst (finalizeDetection js d1) = detection_cycle js d1" by (rule s2(1))
  show "\<not> isl (detection_cycle js d1)" by (rule s2(2))
  have a1: "\<not> isActive (extractorsManager d1)" "registeredHandlers (extractorsManager d1) = []"
    "extractors (extractorsManager d1) = map ex_stopListening (extractors (extractorsManager d))"
    using assms(4) by (simp_all add: s1(8) stopListening_fields)
  show "\<not> isActive (extractorsManager d1)" by (rule a1(1))
  show "registeredHandlers (extractorsManager d1) = []" by (rule a1(2))
  have stopped: "\<not> ex_isListening (ex_stopListening ex)" for ex
    by (cases ex) (simp_all add: stopListening_base_def)
  show "list_all (\<lambda>ex. \<not> ex_isListening ex) (extractors (extractorsManager d1))"
    by (simp add: a1(3) list_all_iff stopped)
  show "eventsProvider d1 =
            filter (\<lambda>h. h \<notin> set (registeredHandlers (extractorsManager d))) (eventsProvider d)"
    using assms(4) by (simp add: s1(9) stopListening_fields)
  show "extractorsManager d2 = extractorsManager d1" "eventsProvider d2 = eventsProvider d1"
    using a1(1) by (simp_all add: s2(8) s2(9) stopListening_fields)
  show "\<not> isDetectionActive d1" by (rule s1(6))
  show "\<not> isDetectionActive d2" by (rule s2(6))
qed

lemma startDetection_fields:
  "initialized (snd (startDetection d)) = initialized d"
  "modelParameters (snd (startDetection d)) = modelParameters d"
  "onDetectionCallback (snd (startDetection d)) = onDetectionCallback d"
  "extractorsManager (snd (startDetection d)) = extractorsManager d"
  "metadataProvider (snd (startDetection d)) = metadataProvider d"
  "eventStorage (snd (startDetection d)) = eventStorage d"
  "eventsProvider (snd (startDetection d)) = eventsProvider d"
  "initialized d \<Longrightarrow> isDetectionActive (snd (startDetection d))"
  "initialized d \<Longrightarrow> \<not> isDetectionActive d \<Longrightarrow> \<not> isDetectionFinalizing (snd (startDetection d))"
  unfolding startDetection_def Let_def det_log_def startListening_begin_def mgr_log_def
  by simp_all

lemma initExtractors_fields:
  "extractors (extractorsManager (initExtractors cs d)) = map new_extractor cs"
  "isActive (extractorsManager (initExtractors cs d)) = isActive (extractorsManager d)"
  "initialized (initExtractors cs d) = initialized d"
  "onDetectionCallback (initExtractors cs d) = onDetectionCallback d"
  "metadataProvider (initExtractors cs d) = metadataProvider d"
  "isDetectionActive (initExtractors cs d) = isDetectionActive d"
  "isDetectionFinalizing (initExtractors cs d) = isDetectionFinalizing d"
  "eventsProvider (initExtractors cs d) = eventsProvider d"
  "eventStorage (initExtractors cs d) = eventStorage d"
  unfolding initExtractors_def Let_def mgr_log_def set_extractors_def
  by simp_all

lemma init_fields:
  "initialized (init options d)"
  "modelParameters (init options d) = Some MODEL_PARAMETERS"
  "onDetectionCallback (init options d) = opt_onDetection options"
  "metadataProvider (init options d) = metadataProvider d"
  "eventsProvider (init options d) = eventsProvider d"
  "\<not> isDetectionFinalizing (init options d)"
  "isDetectionActive (init options d) = (opt_autoStart options \<noteq> Some False)"
  "extractors (extractorsManager (init options d)) = map new_extractor (classes_of options)"
  "\<not> isActive (extractorsManager (init options d))"
  "ms_events (eventStorage (init options d)) = ms_events (eventStorage d)"
proof -
  define dbg where "dbg = (opt_debug options = Some True)"
  define autoStart where "autoStart = (case opt_autoStart options of None \<Rightarrow> True | Some a \<Rightarrow> a)"
  define d3 where
    "d3 = (let d2 = resetDetectionState
                      (d\<lparr>debug := dbg, onDetectionCallback := opt_onDetection options,
                         logger := (logger d)\<lparr>minLevel := (if dbg then DEBUG else INFO)\<rparr>,
                         extractorsManager := ExtractorsManager_new dbg\<rparr>)
           in d2\<lparr>eventStorage := snd (mock_checkForExistingSession (eventStorage d2))\<rparr>)"
  define d4 where
    "d4 = (case opt_extractorClasses options of
             None \<Rightarrow>
               det_log DEBUG ''Initialized default extractors using ExtractorsManager''
                 (initExtractors DEFAULT_EXTRACTORS d3)
           | Some classes \<Rightarrow>
               if length classes > 0
               then det_log DEBUG ''Initialized extractor classes using ExtractorsManager''
                      (initExtractors classes d3)
               else det_log DEBUG ''Initialized default extractors using ExtractorsManager''
                      (initExtractors DEFAULT_EXTRACTORS d3))"
  define d6 where
    "d6 = det_log DEBUG (''Initialized with autoStart=''
                         @ (if autoStart then ''true'' else ''false'') @ ''.'')
            (d4\<lparr>modelParameters := Some MODEL_PARAMETERS, initialized := True\<rparr>)"
  have unfold: "init options d =
      (if autoStart then snd (startDetection (det_log DEBUG ''Auto-starting detection...'' d6))
       else d6)"
    unfolding init_def Let_def dbg_def autoStart_def d3_def d4_def d6_def ..
  have f3: "onDetectionCallback d3 = opt_onDetection options"
    "metadataProvider d3 = metadataProvider d" "eventsProvider d3 = eventsProvider d"
    "\<not> isDetectionFinalizing d3" "\<not> isDetectionActive d3"
    "\<not> isActive (extractorsManager d3)"
    "ms_events (eventStorage d3) = ms_events (eventStorage d)"
    by (simp_all add: d3_def Let_def resetDetectionState_def ExtractorsManager_new_def
        mock_checkForExistingSession_def split: option.splits)
  have "\<exists>msg. d4 = det_log DEBUG msg (initExtractors (classes_of options) d3)"
  proof (cases "opt_extractorClasses options")
    case None
    then show ?thesis
      by (auto simp: d4_def classes_of_def)
  next
    case (Some classes)
    then show ?thesis
      by (cases "length classes > 0") (auto simp: d4_def classes_of_def)
  qed
  then obtain msg where d4_eq: "d4 = det_log DEBUG msg (initExtractors (classes_of options) d3)"
    by blast
  have f4: "onDetectionCallback d4 = opt_onDetection options"
    "metadataProvider d4 = metadataProvider d" "eventsProvider d4 = eventsProvider d"
    "\<not> isDetectionFinalizing d4" "\<not> isDetectionActive d4"
    "\<not> isActive (extractorsManager d4)"
    "extractors (extractorsManager d4) = map new_extractor (classes_of options)"
    "ms_events (eventStorage d4) = ms_events (eventStorage d)"
    using f3 by (simp_all add: d4_eq det_log_def initExtractors_fields)
  have f6: "initialized d6" "modelParameters d6 = Some MODEL_PARAMETERS"
    "onDetectionCallback d6 = opt_onDetection options"
    "metadataProvider d6 = metadataProvider d" "eventsProvider d6 = eventsProvider d"
    "\<not> isDetectionFinalizing d6" "\<not> isDetectionActive d6"
    "\<not> isActive (extractorsManager d6)"
    "extractors (extractorsManager d6) = map new_extractor (classes_of options)"
    "ms_events (eventStorage d6) = ms_events (eventStorage d)"
    using f4 by (simp_all add: d6_def det_log_def)
  define d7 where "d7 = det_log DEBUG ''Auto-starting detection...'' d6"
  have f7: "initialized d7" "modelParameters d7 = Some MODEL_PARAMETERS"
    "onDetectionCallback d7 = opt_onDetection options"
    "metadataProvider d7 = metadataProvider d" "eventsProvider d7 = eventsProvider d"
    "\<not> isDetectionFinalizing d7" "\<not> isDetectionActive d7"
    "\<not> isActive (extractorsManager d7)"
    "extractors (extractorsManager d7) = map new_extractor (classes_of options)"
    "ms_events (eventStorage d7) = ms_events (eventStorage d)"
    using f6 by (simp_all add: d7_def det_log_def)
  have auto_iff: "autoStart = (opt_autoStart options \<noteq> Some False)"
    by (cases "opt_autoStart options") (auto simp: autoStart_def)
  note u = unfold [folded d7_def]
  show "initialized (init options d)"
    using f6 f7 by (simp add: u startDetection_fields)
  show "modelParameters (init options d) = Some MODEL_PARAMETERS"
    using f6 f7 by (simp add: u startDetection_fields)
  show "onDetectionCallback (init options d) = opt_onDetection options"
    using f6 f7 by (simp add: u startDetection_fields)
  show "metadataProvider (init options d) = metadataProvider d"
    using f6 f7 by (simp add: u startDetection_fields)
  show "eventsProvider (init options d) = eventsProvider d"
    using f6 f7 by (simp add: u startDetection_fields)
  show "\<not> isDetectionFinalizing (init options d)"
    using f6(6) f7(1,6,7) by (simp add: u startDetection_fields)
  show "isDetectionActive (init options d) = (opt_autoStart options \<noteq> Some False)"
    using f6(7) f7(1) by (simp add: u startDetection_fields auto_iff [symmetric])
  show "extractors (extractorsManager (init options d)) = map new_extractor (classes_of options)"
    using f6 f7 by (simp add: u startDetection_fields)
  show "\<not> isActive (extractorsManager (init options d))"
    using f6 f7 by (simp add: u startDetection_fields)
  show "ms_events (eventStorage (init options d)) = ms_events (eventStorage d)"
    using f6 f7 by (simp add: u startDetection_fields)
qed

lemma same_flags_refl: "same_flags d d"
  by (simp add: same_flags_def)

lemma same_flags_trans: "same_flags a b \<Longrightarrow> same_flags b c \<Longrightarrow> same_flags a c"
  by (simp add: same_flags_def)

lemma mgr_log_flags: "same_flags d (mgr_log level message d)"
  by (simp add: same_flags_def mgr_log_def)

lemma fold_flags:
  "(\<And>x s. same_flags s (f x s)) \<Longrightarrow> same_flags d (fold f xs d)"
proof (induction xs arbitrary: d)
  case Nil
  show ?case by (simp add: same_flags_refl)
next
  case (Cons x xs)
  have "same_flags d (f x d)" by (rule Cons.prems)
  moreover have "same_flags (f x d) (fold f xs (f x d))"
    by (rule Cons.IH) (rule Cons.prems)
  ultimately show ?case
    by (simp add: same_flags_trans)
qed

lemma load_for_extractor_flags: "same_flags d (load_for_extractor allEvents i d)"
  by (simp add: load_for_extractor_def Let_def same_flags_def set_extractors_def mgr_log_def)

lemma register_handler_flags: "same_flags d (register_handler i t d)"
  by (simp add: register_handler_def Let_def same_flags_def mgr_log_def)

lemma register_handler_extractors:
  "extractors (extractorsManager (register_handler i t d)) = extractors (extractorsManager d)"
  by (simp add: register_handler_def Let_def mgr_log_def)

lemma fold_register_extractors:
  "extractors (extractorsManager (fold (register_handler i) ts d)) = extractors (extractorsManager d)"
  by (induction ts arbitrary: d) (simp_all add: register_handler_extractors)

lemma fold_fold_register_extractors:
  "extractors (extractorsManager
     (fold (\<lambda>i d2. fold (register_handler i)
                      (ex_getEventHandlers (extractors (extractorsManager d2) ! i)) d2) is d))
   = extractors (extractorsManager d)"
  by (induction "is" arbitrary: d) (simp_all add: fold_register_extractors)

lemma registerEventHandlers_extractors:
  "extractors (extractorsManager (registerEventHandlers d)) = extractors (extractorsManager d)"
  unfolding registerEventHandlers_def Let_def
  by (simp add: fold_fold_register_extractors)

lemma registerEventHandlers_flags: "same_flags d (registerEventHandlers d)"
proof -
  let ?d1 = "d\<lparr>extractorsManager := (extractorsManager d)\<lparr>registeredHandlers := []\<rparr>\<rparr>"
  have a: "same_flags d ?d1"
    by (simp add: same_flags_def)
  have b: "same_flags s (fold (register_handler i) ts s)" for i ts s
    by (rule fold_flags) (rule register_handler_flags)
  have "same_flags ?d1
          (fold (\<lambda>i d2. fold (register_handler i)
                           (ex_getEventHandlers (extractors (extractorsManager d2) ! i)) d2)
             [0 ..< length (extractors (extractorsManager ?d1))] ?d1)"
    by (rule fold_flags) (rule b)
  with a show ?thesis
    unfolding registerEventHandlers_def Let_def by (rule same_flags_trans)
qed

lemma loadAndProcessEvents_flags: "same_flags d (loadAndProcessEvents_resume d)"
proof -
  let ?d1 = "mgr_log DEBUG (''Loaded '' @ show_nat (length (ms_events (eventStorage d)))
                            @ '' total events from storage'') d"
  have "same_flags ?d1 (fold (load_for_extractor (ms_events (eventStorage d)))
                          [0 ..< length (extractors (extractorsManager ?d1))] ?d1)"
    by (rule fold_flags) (rule load_for_extractor_flags)
  with mgr_log_flags [of d] show ?thesis
    unfolding loadAndProcessEvents_resume_def Let_def by (rule same_flags_trans)
qed

lemma load_nothing:
  "ms_events (eventStorage d) = [] \<Longrightarrow>
   extractors (extractorsManager (loadAndProcessEvents_resume d)) = extractors (extractorsManager d)"
proof -
  assume empty: "ms_events (eventStorage d) = []"
  have step: "load_for_extractor [] i s = s" for i s
    by (simp add: load_for_extractor_def Let_def)
  have "fold (load_for_extractor []) is s = s" for "is" s
    by (induction "is") (simp_all add: step)
  then show ?thesis
    unfolding loadAndProcessEvents_resume_def Let_def empty
    by (simp add: mgr_log_def)
qed

lemma startListening_resume_flags:
  "same_flags d (startListening_resume d)"
  "isActive (extractorsManager (startListening_resume d))"
proof -
  let ?d1 = "registerEventHandlers (loadAndProcessEvents_resume d)"
  have "same_flags d ?d1"
    by (rule same_flags_trans [OF loadAndProcessEvents_flags registerEventHandlers_flags])
  then show "same_flags d (startListening_resume d)"
    unfolding startListening_resume_def Let_def by (simp add: same_flags_def)
  show "isActive (extractorsManager (startListening_resume d))"
    unfolding startListening_resume_def Let_def by simp
qed

lemma startListening_resume_fresh:
  "ms_events (eventStorage d) = [] \<Longrightarrow>
   extractors (extractorsManager (startListening_resume d))
   = map ex_startListening (extractors (extractorsManager d))"
  unfolding startListening_resume_def Let_def
  by (simp add: registerEventHandlers_extractors load_nothing)

text \<open>
  C3, as amended. On a detector on which \<open>init\<close> has not been called,
  \<open>getCurrentDetectionResult\<close> and \<open>finalizeDetection\<close> fail with the error
  "AgentDetector not initialized. Call init() first." and leave the detector as it is.
  \<open>startDetection\<close> does not fail: it logs the error "Cannot start detection - not
  initialized." and returns the detector, unchanged but for that line on the console.
\<close>

theorem uninitialized_calls:
  assumes "\<not> initialized d"
  shows "getCurrentDetectionResult js d =
           (Inl (Error ''AgentDetector not initialized. Call init() first.''), d)
         \<and> finalizeDetection js d =
           (Inl (Error ''AgentDetector not initialized. Call init() first.''), d)
         \<and> startDetection d =
           (Inr (), d\<lparr>console := Logger_log (logger d) ''Cannot start detection - not initialized.''
                                    ERROR (console d)\<rparr>)"
  using assms
  by (simp add: getCurrentDetectionResult_def finalizeDetection_def startDetection_def det_log_def)

lemma fresh_detector_facts:
  "\<not> initialized fresh_detector"
  "console fresh_detector = []"
  "Logger_log (logger fresh_detector) ''Cannot start detection - not initialized.'' ERROR []
   = [(ERROR, ''[AgentDetector] Cannot start detection - not initialized.'')]"
  by (simp_all add: fresh_detector_def AgentDetector_new_def Logger_log_def)

theorem uninitialized_calls_witness:
  "\<not> initialized fresh_detector
   \<and> fst (getCurrentDetectionResult js_plain fresh_detector) =
       Inl (Error ''AgentDetector not initialized. Call init() first.'')
   \<and> fst (finalizeDetection js_plain fresh_detector) =
       Inl (Error ''AgentDetector not initialized. Call init() first.'')
   \<and> fst (startDetection fresh_detector) = Inr ()
   \<and> console (snd (startDetection fresh_detector)) =
       [(ERROR, ''[AgentDetector] Cannot start detection - not initialized.'')]"
  using uninitialized_calls [OF fresh_detector_facts(1), of js_plain] fresh_detector_facts
  by simp

text \<open>
  C3 as stated fails for \<open>startDetection\<close>: on a detector as the constructor leaves it the
  call returns normally.
\<close>

theorem startDetection_uninitialized_counterexample:
  "\<not> initialized fresh_detector \<and> fst (startDetection fresh_detector) = Inr ()"
  using fresh_detector_facts(1) by (simp add: startDetection_def)

lemma extract_one_failure:
  "ex_extractFeatures fetched ex = Inl err \<Longrightarrow>
   extract_one fetched ex =
     \<lparr>oc_features = ex_getDefaultFeatures ex, oc_hasData = False, oc_error = True\<rparr>"
  by (simp add: extract_one_def)

lemma merged_outcomes:
  assumes "list_all (proper_extractor fetched) es"
  shows "map_of (fold (\<lambda>r combined. obj_assign combined (oc_features r))
                   (map (extract_one fetched) es) [])
         = merged_spec fetched es"
proof -
  have obj: "is_object (oc_features r)" if "r \<in> set (map (extract_one fetched) es)" for r
    using that assms extract_one_contribution [of fetched] by (auto simp: list_all_iff)
  have maps: "map (\<lambda>r. map_of (oc_features r)) (map (extract_one fetched) es)
              = map (contribution fetched) es"
    using assms extract_one_contribution [of fetched] by (auto simp: list_all_iff)
  have "map_of (fold (\<lambda>r combined. obj_assign combined (oc_features r))
                  (map (extract_one fetched) es) [])
        = foldl (++) (map_of [])
            (map (\<lambda>r. map_of (oc_features r)) (map (extract_one fetched) es))"
    by (rule combine_outcomes) (rule obj)
  also have "\<dots> = foldl (++) Map.empty (map (contribution fetched) es)"
    by (simp only: maps map_of.simps)
  finally show ?thesis
    by (simp only: merged_spec_def)
qed

text \<open>
  C4. With model parameters loaded, \<open>extractFeatures\<close> of the detector returns a vector
  and never fails: the vector holds, extractor after extractor, each extractor's default
  features overridden by the features it produced; an extractor whose \<open>extractFeatures\<close>
  throws or rejects contributes exactly its default features, with \<open>hasData = false\<close>; and
  the whole cycle returns a result whenever the result callback, if there is one,
  returns normally.
\<close>

theorem extraction_failure_is_contained:
  assumes "modelParameters d = Some mp"
    and "list_all (proper_extractor (metadataProvider d)) (extractors (extractorsManager d))"
  shows "(\<exists>fs. fst (extractFeatures d) = Inr fs
            \<and> map_of fs = merged_spec (metadataProvider d) (extractors (extractorsManager d)))
         \<and> (\<forall>ex err. ex_extractFeatures (metadataProvider d) ex = Inl err \<longrightarrow>
               extract_one (metadataProvider d) ex =
                 \<lparr>oc_features = ex_getDefaultFeatures ex, oc_hasData = False, oc_error = True\<rparr>
               \<and> contribution (metadataProvider d) ex = map_of (ex_getDefaultFeatures ex))
         \<and> (callback_returns d \<longrightarrow> (\<exists>r d'. performDetection js d = (Inr r, d')))"
proof -
  have a: "\<exists>fs. fst (extractFeatures d) = Inr fs
            \<and> map_of fs = merged_spec (metadataProvider d) (extractors (extractorsManager d))"
    using merged_outcomes [OF assms(2)] by (simp add: extractFeatures_unfold [OF assms(1)])
  have b: "\<forall>ex err. ex_extractFeatures (metadataProvider d) ex = Inl err \<longrightarrow>
               extract_one (metadataProvider d) ex =
                 \<lparr>oc_features = ex_getDefaultFeatures ex, oc_hasData = False, oc_error = True\<rparr>
               \<and> contribution (metadataProvider d) ex = map_of (ex_getDefaultFeatures ex)"
    by (simp add: extract_one_failure contribution_def)
  have c: "callback_returns d \<longrightarrow> (\<exists>r d'. performDetection js d = (Inr r, d'))"
    using performDetection_loaded [OF assms(1), of js] by blast
  from a b c show ?thesis
    by blast
qed

lemma detector_with_failure_facts:
  "modelParameters detector_with_failure = Some MODEL_PARAMETERS"
  "metadataProvider detector_with_failure = no_metadata"
  "extractors (extractorsManager detector_with_failure) =
     [CustomEx failing_extractor, ScrollEx \<lparr>isListening = False, scrollEvents = []\<rparr>]"
  "callback_returns detector_with_failure"
  unfolding detector_with_failure_def
  by (simp_all add: init_fields classes_of_def default_options_def fresh_detector_def
      AgentDetector_new_def failing_extractor_def callback_returns_def invoke_callback_def)

lemma failing_extractor_fails:
  "ex_extractFeatures no_metadata (CustomEx failing_extractor) = Inl (Error ''probe failed'')"
  by (simp add: failing_extractor_def)

lemma detector_with_failure_proper:
  "list_all (proper_extractor (metadataProvider detector_with_failure))
     (extractors (extractorsManager detector_with_failure))"
  by (simp add: detector_with_failure_facts proper_extractor_def is_object_def
      failing_extractor_def as_object_def scroll_extractFeatures_def scroll_features_obj_def
      scroll_getDefaultFeatures_def)

lemma detector_with_failure_merged:
  "merged_spec no_metadata
     [CustomEx failing_extractor, ScrollEx \<lparr>isListening = False, scrollEvents = []\<rparr>] ''probe''
   = Some (JNumber (Fin (- 1)))"
  by (simp add: merged_spec_def contribution_def failing_extractor_def as_object_def
      scroll_extractFeatures_def scroll_features_obj_def scroll_getDefaultFeatures_def
      map_add_def)

theorem extraction_failure_is_contained_witness:
  "modelParameters detector_with_failure = Some MODEL_PARAMETERS
   \<and> list_all (proper_extractor (metadataProvider detector_with_failure))
        (extractors (extractorsManager detector_with_failure))
   \<and> ex_extractFeatures (metadataProvider detector_with_failure) (CustomEx failing_extractor)
       = Inl (Error ''probe failed'')
   \<and> callback_returns detector_with_failure
   \<and> (\<exists>fs. fst (extractFeatures detector_with_failure) = Inr fs
          \<and> map_of fs ''probe'' = Some (JNumber (Fin (- 1))))
   \<and> oc_hasData (extract_one (metadataProvider detector_with_failure)
                    (CustomEx failing_extractor)) = False
   \<and> (\<exists>r d'. performDetection js_plain detector_with_failure = (Inr r, d'))"
proof -
  note t = extraction_failure_is_contained
             [OF detector_with_failure_facts(1) detector_with_failure_proper, of js_plain]
  from t obtain fs where fs: "fst (extractFeatures detector_with_failure) = Inr fs"
    "map_of fs = merged_spec (metadataProvider detector_with_failure)
                   (extractors (extractorsManager detector_with_failure))"
    by blast
  have probe: "map_of fs ''probe'' = Some (JNumber (Fin (- 1)))"
    by (simp add: fs(2) detector_with_failure_facts(2,3) detector_with_failure_merged)
  have fails: "ex_extractFeatures (metadataProvider detector_with_failure)
                 (CustomEx failing_extractor) = Inl (Error ''probe failed'')"
    unfolding detector_with_failure_facts(2) by (rule failing_extractor_fails)
  from t fails have
    "extract_one (metadataProvider detector_with_failure) (CustomEx failing_extractor) =
       \<lparr>oc_features = ex_getDefaultFeatures (CustomEx failing_extractor),
        oc_hasData = False, oc_error = True\<rparr>"
    by blast
  then have nodata:
    "oc_hasData (extract_one (metadataProvider detector_with_failure)
                   (CustomEx failing_extractor)) = False"
    by simp
  from t detector_with_failure_facts(4)
  have cycle: "\<exists>r d'. performDetection js_plain detector_with_failure = (Inr r, d')"
    by blast
  from detector_with_failure_facts(1,4) detector_with_failure_proper fails fs(1) probe nodata cycle
  show ?thesis
    by blast
qed

lemma active_detector_facts:
  "initialized active_detector"
  "modelParameters active_detector = Some MODEL_PARAMETERS"
  "isDetectionActive active_detector"
  "\<not> isDetectionFinalizing active_detector"
  "isActive (extractorsManager active_detector)"
  "callback_returns active_detector"
proof -
  let ?d = "init default_options fresh_detector"
  have sf: "same_flags ?d active_detector"
    unfolding active_detector_def by (rule startListening_resume_flags(1))
  have opts: "opt_autoStart default_options \<noteq> Some False" "opt_onDetection default_options = None"
    by (simp_all add: default_options_def)
  from sf show "initialized active_detector"
    by (simp add: same_flags_def init_fields)
  from sf show "modelParameters active_detector = Some MODEL_PARAMETERS"
    by (simp add: same_flags_def init_fields)
  from sf opts show "isDetectionActive active_detector"
    by (simp add: same_flags_def init_fields)
  from sf show "\<not> isDetectionFinalizing active_detector"
    by (simp add: same_flags_def init_fields)
  show "isActive (extractorsManager active_detector)"
    unfolding active_detector_def by (rule startListening_resume_flags(2))
  from sf opts show "callback_returns active_detector"
    by (simp add: same_flags_def init_fields callback_returns_def invoke_callback_def)
qed

lemma finalize_twice_when_listening_example:
  "\<not> isActive (extractorsManager (snd (finalizeDetection js_plain active_detector)))
   \<and> extractorsManager
        (snd (finalizeDetection js_plain (snd (finalizeDetection js_plain active_detector))))
      = extractorsManager (snd (finalizeDetection js_plain active_detector))"
proof -
  note f = active_detector_facts
  from finalize_twice_when_listening(5,9) [OF f(1) f(2) f(4) f(5) f(6), of js_plain]
  show ?thesis
    by blast
qed

lemma fold_keeps:
  "(\<And>x s. g (f x s) = g s) \<Longrightarrow> g (fold f xs d) = g d"
  by (induction xs arbitrary: d) simp_all

lemma load_for_extractor_port:
  "eventsProvider (load_for_extractor allEvents i d) = eventsProvider d"
  by (simp add: load_for_extractor_def Let_def set_extractors_def mgr_log_def)

lemma loadAndProcessEvents_port:
  "eventsProvider (loadAndProcessEvents_resume d) = eventsProvider d"
proof -
  have "eventsProvider (fold (load_for_extractor allEvents) is s) = eventsProvider s"
    for allEvents "is" s
    by (rule fold_keeps) (rule load_for_extractor_port)
  then show ?thesis
    unfolding loadAndProcessEvents_resume_def Let_def by (simp add: mgr_log_def)
qed

lemma register_handler_port:
  "map fst (eventsProvider (register_handler i t d)) = map fst (eventsProvider d) @ [t]"
  by (simp add: register_handler_def Let_def mgr_log_def)

lemma fold_register_port:
  "map fst (eventsProvider (fold (register_handler i) ts d)) = map fst (eventsProvider d) @ ts"
  by (induction ts arbitrary: d) (simp_all add: register_handler_port)

lemma fold_fold_register_port:
  "map fst (eventsProvider
     (fold (\<lambda>i d2. fold (register_handler i)
                      (ex_getEventHandlers (extractors (extractorsManager d2) ! i)) d2) is d))
   = map fst (eventsProvider d)
     @ concat (map (\<lambda>i. ex_getEventHandlers (extractors (extractorsManager d) ! i)) is)"
  by (induction "is" arbitrary: d) (simp_all add: fold_register_port fold_register_extractors)

lemma registerEventHandlers_port:
  "map fst (eventsProvider (registerEventHandlers d))
   = map fst (eventsProvider d)
     @ concat (map ex_getEventHandlers (extractors (extractorsManager d)))"
proof -
  define d1 where "d1 = d\<lparr>extractorsManager := (extractorsManager d)\<lparr>registeredHandlers := []\<rparr>\<rparr>"
  define es where "es = extractors (extractorsManager d)"
  have f1: "extractors (extractorsManager d1) = es" "eventsProvider d1 = eventsProvider d"
    by (simp_all add: d1_def es_def)
  have "map ex_getEventHandlers (map (\<lambda>i. es ! i) [0 ..< length es]) = map ex_getEventHandlers es"
    by (simp only: map_nth)
  then have idx: "map (\<lambda>i. ex_getEventHandlers (es ! i)) [0 ..< length es]
                    = map ex_getEventHandlers es"
    by (simp only: map_map comp_def)
  have "registerEventHandlers d =
          fold (\<lambda>i d2. fold (register_handler i)
                         (ex_getEventHandlers (extractors (extractorsManager d2) ! i)) d2)
            [0 ..< length es] d1"
    unfolding registerEventHandlers_def Let_def d1_def es_def by simp
  then show ?thesis
    by (simp only: fold_fold_register_port f1 idx es_def [symmetric])
qed

lemma startListening_resume_port:
  "ms_events (eventStorage d) = [] \<Longrightarrow>
   map fst (eventsProvider (startListening_resume d))
   = map fst (eventsProvider d)
     @ concat (map ex_getEventHandlers (extractors (extractorsManager d)))"
  unfolding startListening_resume_def Let_def
  by (simp add: registerEventHandlers_port loadAndProcessEvents_port load_nothing)

lemma pending_detector_facts:
  "initialized pending_detector"
  "modelParameters pending_detector = Some MODEL_PARAMETERS"
  "isDetectionActive pending_detector"
  "\<not> isDetectionFinalizing pending_detector"
  "\<not> isActive (extractorsManager pending_detector)"
  "callback_returns pending_detector"
  "eventsProvider pending_detector = []"
  "ms_events (eventStorage pending_detector) = []"
  "extractors (extractorsManager pending_detector) = map new_extractor DEFAULT_EXTRACTORS"
  unfolding pending_detector_def
  by (simp_all add: init_fields default_options_def callback_returns_def invoke_callback_def
      classes_of_def fresh_detector_def AgentDetector_new_def empty_storage_def)

text \<open>
  C6. The claim fails on the detector \<open>init()\<close> returns. It is initialized and detection is
  active, but the listening that \<open>startDetection\<close> asked for is not awaited and has yet to
  register its handlers. Two calls of \<open>finalizeDetection\<close> in sequence each return the
  result of a detection cycle, and neither stops anything: the manager and the event port
  are as they were, and detection is marked inactive. When the storage then answers, the
  listening begins: the manager is active, every extractor listens and the handlers are
  on the event port, after the finalization that was to stop the collecting of events.
\<close>

theorem finalize_before_listening_stops_nothing:
  "initialized pending_detector \<and> isDetectionActive pending_detector
   \<and> \<not> isDetectionFinalizing pending_detector
   \<and> fst (finalizeDetection js_plain pending_detector)
       = detection_cycle js_plain pending_detector
   \<and> \<not> isl (detection_cycle js_plain pending_detector)
   \<and> fst (finalizeDetection js_plain finalized_once) = detection_cycle js_plain finalized_once
   \<and> \<not> isl (detection_cycle js_plain finalized_once)
   \<and> extractorsManager finalized_once = extractorsManager pending_detector
   \<and> extractorsManager finalized_twice = extractorsManager pending_detector
   \<and> eventsProvider pending_detector = []
   \<and> eventsProvider finalized_once = []
   \<and> eventsProvider finalized_twice = []
   \<and> \<not> isDetectionActive finalized_twice
   \<and> isActive (extractorsManager (startListening_resume finalized_twice))
   \<and> list_all ex_isListening (extractors (extractorsManager (startListening_resume finalized_twice)))
   \<and> map fst (eventsProvider (startListening_resume finalized_twice))
       = [Mousemove, Keydown, Scroll, Mousemove, Click]"
proof -
  note p = pending_detector_facts
  note s1 = finalize_step [OF p(1) p(2) p(4) p(6), of js_plain, folded finalized_once_def]
  note s2 = finalize_step [OF s1(3,4,5,7), of js_plain, folded finalized_twice_def]
  have m1: "extractorsManager finalized_once = extractorsManager pending_detector"
    and e1: "eventsProvider finalized_once = []"
    using p(5) p(7) by (simp_all add: s1(8) s1(9) stopListening_fields)
  have m2: "extractorsManager finalized_twice = extractorsManager pending_detector"
    and e2: "eventsProvider finalized_twice = []"
    using p(5) m1 e1 by (simp_all add: s2(8) s2(9) stopListening_fields)
  have st: "ms_events (eventStorage finalized_twice) = []"
    by (simp add: s2(10) s1(10) p(8))
  have es: "extractors (extractorsManager (startListening_resume finalized_twice))
              = map ex_startListening (map new_extractor DEFAULT_EXTRACTORS)"
    by (simp add: startListening_resume_fresh [OF st] m2 p(9))
  have listening: "list_all ex_isListening
                     (extractors (extractorsManager (startListening_resume finalized_twice)))"
    unfolding es by (simp add: DEFAULT_EXTRACTORS_def startListening_base_def)
  have port: "map fst (eventsProvider (startListening_resume finalized_twice))
                = [Mousemove, Keydown, Scroll, Mousemove, Click]"
    by (simp add: startListening_resume_port [OF st] e2 m2 p(9) DEFAULT_EXTRACTORS_def)
  from p(1) p(3) p(4) s1(1) s1(2) s2(1) s2(2) m1 m2 p(7) e1 e2 s2(6)
    startListening_resume_flags(2) [of finalized_twice] listening port
  show ?thesis
    by blast
qed

lemma default_extractors_report:
  "map (reports_data (Inr md)) (map ex_startListening (map new_extractor DEFAULT_EXTRACTORS))
   = [True, False, False, False, False]"
  by (simp add: DEFAULT_EXTRACTORS_def reports_data_def startListening_base_def as_object_def
      metadata_extractFeatures_def mouse_extractFeatures_def MIN_MOVE_EVENTS_def
      keyboard_extractFeatures_def scroll_extractFeatures_def click_extractFeatures_def Let_def)

lemma replay_detector_facts:
  assumes "ms_events storage = []"
  shows "metadataProvider (replay_detector snapshot storage) = Inr (snap_metadata snapshot)"
    and "extractors (extractorsManager (replay_detector snapshot storage))
         = map ex_startListening (map new_extractor DEFAULT_EXTRACTORS)"
proof -
  let ?d0 = "AgentDetector_new (ReplayMetadataAdapter_getMetadata snapshot) [] storage"
  let ?d = "init default_options ?d0"
  have sf: "same_flags ?d (replay_detector snapshot storage)"
    unfolding replay_detector_def by (rule startListening_resume_flags(1))
  then show "metadataProvider (replay_detector snapshot storage) = Inr (snap_metadata snapshot)"
    by (simp add: same_flags_def init_fields AgentDetector_new_def
        ReplayMetadataAdapter_getMetadata_def)
  have ev: "ms_events (eventStorage ?d) = []"
    using assms by (simp add: init_fields AgentDetector_new_def)
  have cl: "classes_of default_options = DEFAULT_EXTRACTORS"
    by (simp add: classes_of_def default_options_def)
  show "extractors (extractorsManager (replay_detector snapshot storage))
         = map ex_startListening (map new_extractor DEFAULT_EXTRACTORS)"
    unfolding replay_detector_def
    by (simp only: startListening_resume_fresh [OF ev] init_fields cl)
qed

lemma empty_replay_start:
  "snap_events snapshot = [] \<Longrightarrow>
   ReplayEnvironment_start ls snapshot w = \<lparr>world = w, effects = []\<rparr>"
  by (simp add: ReplayEnvironment_start_def ReplayEventAdapter_start_def)

text \<open>
  C9, as amended. Replaying a snapshot without events returns at once: no handler is
  called, nothing is waited for, and what the handlers act on is unchanged. On the
  detector of such a replay environment, started on an empty storage, the pointer-motion,
  keyboard, scroll and click extractors report \<open>hasData = false\<close>, and the metadata
  extractor reports \<open>hasData = true\<close>, since the replay's metadata adapter always resolves.
\<close>

theorem empty_replay_reports:
  assumes "snap_events snapshot = []" and "ms_events storage = []"
  shows "ReplayEnvironment_start ls snapshot (replay_detector snapshot storage)
           = \<lparr>world = replay_detector snapshot storage, effects = []\<rparr>
         \<and> ReplayEventAdapter_start realTime ls (snap_events snapshot) w
           = \<lparr>world = w, effects = []\<rparr>
         \<and> map (reports_data (metadataProvider (replay_detector snapshot storage)))
             (extractors (extractorsManager (replay_detector snapshot storage)))
           = [True, False, False, False, False]
         \<and> map constructor_name (extractors (extractorsManager (replay_detector snapshot storage)))
           = [''BrowserMetadataExtractor'', ''MouseEventExtractor'', ''KeyboardEventExtractor'',
              ''ScrollEventExtractor'', ''ClickEventExtractor'']"
proof -
  have a: "ReplayEnvironment_start ls snapshot (replay_detector snapshot storage)
           = \<lparr>world = replay_detector snapshot storage, effects = []\<rparr>"
    using assms(1) by (rule empty_replay_start)
  have b: "ReplayEventAdapter_start realTime ls (snap_events snapshot) w
           = \<lparr>world = w, effects = []\<rparr>"
    using assms(1) by (simp add: ReplayEventAdapter_start_def)
  have c: "map (reports_data (metadataProvider (replay_detector snapshot storage)))
             (extractors (extractorsManager (replay_detector snapshot storage)))
           = [True, False, False, False, False]"
    by (simp only: replay_detector_facts [OF assms(2)] default_extractors_report)
  have d: "map constructor_name (extractors (extractorsManager (replay_detector snapshot storage)))
           = [''BrowserMetadataExtractor'', ''MouseEventExtractor'', ''KeyboardEventExtractor'',
              ''ScrollEventExtractor'', ''ClickEventExtractor'']"
    unfolding replay_detector_facts(2) [OF assms(2)]
    by (simp add: DEFAULT_EXTRACTORS_def startListening_base_def)
  from a b c d show ?thesis
    by blast
qed

lemma empty_inputs: "snap_events empty_snapshot = []" "ms_events empty_storage = []"
  by (simp_all add: empty_snapshot_def empty_storage_def)

theorem empty_replay_reports_witness:
  "snap_events empty_snapshot = [] \<and> ms_events empty_storage = []
   \<and> ReplayEnvironment_start no_listeners empty_snapshot (replay_detector empty_snapshot empty_storage)
       = \<lparr>world = replay_detector empty_snapshot empty_storage, effects = []\<rparr>
   \<and> map (reports_data (metadataProvider (replay_detector empty_snapshot empty_storage)))
        (extractors (extractorsManager (replay_detector empty_snapshot empty_storage)))
       = [True, False, False, False, False]"
  using empty_replay_reports [OF empty_inputs, of no_listeners] empty_inputs
  by blast

text \<open>
  C9 as stated fails for the metadata extractor: after the replay of a snapshot without
  events it reports \<open>hasData = true\<close>.
\<close>

theorem empty_replay_metadata_counterexample:
  "snap_events empty_snapshot = []
   \<and> constructor_name
        (extractors (extractorsManager
           (world (ReplayEnvironment_start no_listeners empty_snapshot
                     (replay_detector empty_snapshot empty_storage)))) ! 0)
       = ''BrowserMetadataExtractor''
   \<and> reports_data (metadataProvider (replay_detector empty_snapshot empty_storage))
        (extractors (extractorsManager
           (world (ReplayEnvironment_start no_listeners empty_snapshot
                     (replay_detector empty_snapshot empty_storage)))) ! 0)
       = True"
proof -
  have w: "world (ReplayEnvironment_start no_listeners empty_snapshot
                    (replay_detector empty_snapshot empty_storage))
           = replay_detector empty_snapshot empty_storage"
    by (simp add: empty_replay_start empty_inputs)
  have r: "reports_data (Inr (snap_metadata empty_snapshot))
             (map ex_startListening (map new_extractor DEFAULT_EXTRACTORS) ! 0) = True"
    by (simp add: DEFAULT_EXTRACTORS_def reports_data_def startListening_base_def as_object_def
        metadata_extractFeatures_def Let_def)
  have n: "constructor_name (map ex_startListening (map new_extractor DEFAULT_EXTRACTORS) ! 0)
           = ''BrowserMetadataExtractor''"
    by (simp add: DEFAULT_EXTRACTORS_def startListening_base_def)
  show ?thesis
    unfolding w replay_detector_facts [OF empty_inputs(2)]
    using r n empty_inputs(1) by simp
qed

end
